theory Spec2Isabelle
  imports Complex_Main "HOL-Library.Multiset"
begin

section \<open>Data model\<close>

text \<open>
  The RAPT dashboard has a serverless function (fetchHydrometers and its helpers) that
  pulls devices and telemetry from the vendor API and adds an abv property to every
  telemetry point, and a browser client (main.js) that classifies temperatures and
  renders the points.

  A number is modelled as a real: the value of the decimal exchanged as JSON. JavaScript
  holds it as the nearest binary64 value and rounds the result of every arithmetic
  operation to binary64; where the code computes (the abv of a point) that rounding is
  written out, see \<open>fl\<close> below. Comparisons and sorting are exact on binary64 values
  and are modelled on the reals. NaN and the infinities are left out. A telemetry point
  is a JavaScript object; the properties the code reads or writes are the fields of the
  record below.
  \<open>createdOn\<close> is the instant \<open>new Date(t.createdOn)\<close> denotes, in milliseconds.
  A property that may be missing from the object (\<open>undefined\<close>) is an option.
\<close>

record sample =
  createdOn :: int
  gravity :: real
  temperature :: real
  battery :: real
  rssi :: int
  abv :: "real option"
  attenuation :: "real option"
  gravityVelocity :: "real option"

record session =
  session_id :: string
  originalGravity :: "real option"

record profile =
  sessions :: "session list option"

record session_ref =
  ref_id :: "string option"

record device =
  device_id :: string
  device_name :: "string option"
  activeProfileSession :: "session_ref option"
  telemetry :: "sample list option"

text \<open>
  \<open>CONFIG.manualOriginalGravity\<close> is \<open>parseFloat(RAPT_MANUAL_OG)\<close> when the variable is
  set and \<open>null\<close> otherwise. The code only tests it for truthiness and copies it, so
  \<open>None\<close> stands for \<open>null\<close> (and for an unparsable value, which is falsy as well).
\<close>

record config =
  manualOriginalGravity :: "real option"

text \<open>
  The vendor API, as the outcome of each request the function makes: \<open>None\<close> is a
  request that fails (\<open>makeRequest\<close> rejects), \<open>Some\<close> the parsed body. The two
  telemetry call shapes are the request with a start and end date and the one without.
\<close>

record api =
  getHydrometers :: "device list option"
  getTelemetryWindowed :: "string \<Rightarrow> sample list option"
  getTelemetry :: "string \<Rightarrow> sample list option"
  getProfiles :: "profile list option"

datatype error = RequestFailed | TypeError

datatype call = Windowed string | Unwindowed string

section \<open>The serverless function\<close>

subsection \<open>fetchTelemetry\<close>

text \<open>
  The result is paired with the requests made, in order, so that the order of the two
  call shapes can be stated.
\<close>

definition fetchTelemetry :: "api \<Rightarrow> string \<Rightarrow> sample list \<times> call list" where
  "fetchTelemetry a hydrometerId =
     (case getTelemetryWindowed a hydrometerId of
        Some data \<Rightarrow> (data, [Windowed hydrometerId])
      | None \<Rightarrow>
          (case getTelemetry a hydrometerId of
             Some data2 \<Rightarrow> (data2, [Windowed hydrometerId, Unwindowed hydrometerId])
           | None \<Rightarrow> ([], [Windowed hydrometerId, Unwindowed hydrometerId])))"

subsection \<open>fetchProfileSession\<close>

fun find_session :: "profile list \<Rightarrow> string \<Rightarrow> session option" where
  "find_session [] sessionId = None"
| "find_session (p # ps) sessionId =
     (case sessions p of
        None \<Rightarrow> find_session ps sessionId
      | Some ss \<Rightarrow>
          (case find (\<lambda>s. session_id s = sessionId) ss of
             Some s \<Rightarrow> Some s
           | None \<Rightarrow> find_session ps sessionId))"

definition fetchProfileSession :: "api \<Rightarrow> string \<Rightarrow> session option" where
  "fetchProfileSession a sessionId =
     (case getProfiles a of None \<Rightarrow> None | Some data \<Rightarrow> find_session data sessionId)"

subsection \<open>Original gravity\<close>

text \<open>JavaScript truthiness of a number that may be \<open>null\<close> or \<open>undefined\<close>.\<close>

definition truthy :: "real option \<Rightarrow> bool" where
  "truthy v = (case v of None \<Rightarrow> False | Some x \<Rightarrow> x \<noteq> 0)"

text \<open>
  \<open>og\<close> starts as \<open>null\<close>. First step: the profile session of the device, when
  \<open>device.activeProfileSession\<close> and its \<open>id\<close> are truthy (a string is truthy when
  it is not empty) and the session found has a truthy \<open>originalGravity\<close>.
\<close>

definition og_session :: "api \<Rightarrow> device \<Rightarrow> real option" where
  "og_session a d =
     (case activeProfileSession d of
        None \<Rightarrow> None
      | Some r \<Rightarrow>
          (case ref_id r of
             None \<Rightarrow> None
           | Some i \<Rightarrow>
               if i = [] then None
               else (case fetchProfileSession a i of
                       None \<Rightarrow> None
                     | Some s \<Rightarrow>
                         if truthy (originalGravity s) then originalGravity s else None)))"

text \<open>Second step: \<open>if (!og && CONFIG.manualOriginalGravity)\<close>.\<close>

definition og_manual :: "config \<Rightarrow> real option \<Rightarrow> real option" where
  "og_manual c og =
     (if \<not> truthy og \<and> truthy (manualOriginalGravity c) then manualOriginalGravity c else og)"

text \<open>
  Third step: \<open>[...telemetry].sort((a, b) => new Date(a.createdOn) - new Date(b.createdOn))\<close>.
  Array.prototype.sort is stable, as is the insertion sort \<open>sort_key\<close>. Reading
  \<open>sortedByDate[0].gravity\<close> of an empty array throws a TypeError.
\<close>

definition sortedByDate :: "sample list \<Rightarrow> sample list" where
  "sortedByDate tel = sort_key createdOn tel"

definition og_first :: "sample list \<Rightarrow> real option \<Rightarrow> error + real" where
  "og_first tel og =
     (if \<not> truthy og
      then (case sortedByDate tel of [] \<Rightarrow> Inl TypeError | s # _ \<Rightarrow> Inr (gravity s))
      else (case og of Some v \<Rightarrow> Inr v | None \<Rightarrow> Inl TypeError))"

definition resolve_og :: "config \<Rightarrow> api \<Rightarrow> device \<Rightarrow> sample list \<Rightarrow> error + real" where
  "resolve_og c a d tel = og_first tel (og_manual c (og_session a d))"

subsection \<open>Binary64 arithmetic\<close>

text \<open>
  The binary exponent of a number: the largest \<open>e\<close> in \<open>[-1022, 1023]\<close> with
  \<open>2^e \<le> |x|\<close>, and \<open>-1022\<close> for a subnormal number or zero. \<open>find_exp\<close> tries
  1023 first and goes down.
\<close>

fun find_exp :: "nat \<Rightarrow> real \<Rightarrow> int" where
  "find_exp 0 a = - 1022"
| "find_exp (Suc n) a = (if 2 powi (int n - 1022) \<le> a then int n - 1022 else find_exp n a)"

definition bexp :: "real \<Rightarrow> int" where
  "bexp x = find_exp 2046 \<bar>x\<bar>"

text \<open>Rounding to the nearest integer, a tie to the even one.\<close>

definition round_even :: "real \<Rightarrow> int" where
  "round_even y =
     (let f = \<lfloor>y\<rfloor>; d = y - of_int f
      in if d < 1 / 2 then f else if 1 / 2 < d then f + 1 else if even f then f else f + 1)"

text \<open>
  \<open>fl x\<close> is the binary64 value nearest to \<open>x\<close> (53 significant bits, ties to even):
  the multiple of \<open>2^(e - 52)\<close> nearest to \<open>x\<close>, for the exponent \<open>e\<close> of \<open>x\<close>. It is
  what \<open>JSON.parse\<close> and \<open>parseFloat\<close> make of a decimal and what an arithmetic
  operation makes of its exact result; on a binary64 value it is the identity. Results
  beyond the largest binary64 value (the infinities) are not modelled.
\<close>

definition fl :: "real \<Rightarrow> real" where
  "fl x = of_int (round_even (x / 2 powi (bexp x - 52))) * 2 powi (bexp x - 52)"

subsection \<open>ABV of each point\<close>

text \<open>
  \<open>x.toFixed(f)\<close> takes the integer \<open>n\<close> with \<open>n / 10^f\<close> nearest to \<open>x\<close>, the
  larger one of two, after setting the sign of a negative \<open>x\<close> aside, and prints the
  decimal \<open>n / 10^f\<close>.
\<close>

definition toFixed :: "nat \<Rightarrow> real \<Rightarrow> real" where
  "toFixed f x =
     (if x < 0 then - (of_int \<lfloor>(- x) * 10 ^ f + 1 / 2\<rfloor> / 10 ^ f)
      else of_int \<lfloor>x * 10 ^ f + 1 / 2\<rfloor> / 10 ^ f)"

text \<open>
  The mapping of a point \<open>t\<close>. \<open>og\<close> and \<open>t.gravity\<close> are binary64 values when the
  code divides them, hence read through \<open>fl\<close>; the division, the subtraction and the
  multiplication each round. \<open>Math.max\<close> is exact. \<open>parseFloat\<close> reads the decimal
  \<open>toFixed\<close> prints, and that decimal is what the response carries as \<open>abv\<close>.
\<close>

definition enrich :: "real \<Rightarrow> sample \<Rightarrow> sample" where
  "enrich og t =
     (let ogSG = fl (fl og / 1000);
          fgSG = fl (fl (gravity t) / 1000);
          abv0 = fl (fl (ogSG - fgSG) * 131.25)
      in t\<lparr>abv := Some (toFixed 2 (max 0 abv0))\<rparr>)"

subsection \<open>fetchHydrometers\<close>

text \<open>The body of the loop over the devices.\<close>

definition enrichDevice :: "config \<Rightarrow> api \<Rightarrow> device \<Rightarrow> error + device" where
  "enrichDevice c a d =
     (let tel = fst (fetchTelemetry a (device_id d))
      in if length tel > 0
         then (case resolve_og c a d tel of
                 Inl e \<Rightarrow> Inl e
               | Inr og \<Rightarrow> Inr (d\<lparr>telemetry := Some (map (enrich og) tel)\<rparr>))
         else Inr d)"

fun enrichDevices :: "config \<Rightarrow> api \<Rightarrow> device list \<Rightarrow> error + device list" where
  "enrichDevices c a [] = Inr []"
| "enrichDevices c a (d # ds) =
     (case enrichDevice c a d of
        Inl e \<Rightarrow> Inl e
      | Inr d' \<Rightarrow>
          (case enrichDevices c a ds of Inl e \<Rightarrow> Inl e | Inr ds' \<Rightarrow> Inr (d' # ds')))"

definition fetchHydrometers :: "config \<Rightarrow> api \<Rightarrow> error + device list" where
  "fetchHydrometers c a =
     (case getHydrometers a of None \<Rightarrow> Inl RequestFailed | Some data \<Rightarrow> enrichDevices c a data)"

section \<open>The browser client (main.js, second variant)\<close>

subsection \<open>Temperature thresholds\<close>

record temp_config =
  tempDangerMin :: real
  tempWarningMin :: real
  tempWarningMax :: real
  tempDangerMax :: real

text \<open>The configuration \<open>loadTempConfig\<close> returns when nothing is saved.\<close>

definition defaultTempConfig :: temp_config where
  "defaultTempConfig =
     \<lparr>tempDangerMin = 18, tempWarningMin = 20, tempWarningMax = 26, tempDangerMax = 28\<rparr>"

text \<open>
  The three outcomes of the code: the danger colour or class (\<open>temp-danger\<close>, red), the
  warning one (\<open>temp-warning\<close>, orange) and the good one (\<open>temp-good\<close>, green).
\<close>

datatype severity = Good | Warning | Danger

text \<open>
  The colour of a chart point in \<open>createChart\<close>. The monochrome and the coloured branch
  test the same conditions and differ in the colour strings only.
\<close>

definition tempColor :: "temp_config \<Rightarrow> bool \<Rightarrow> real \<Rightarrow> severity" where
  "tempColor cfg coldCrashMode temp =
     (let isLowTemp = temp < tempDangerMin cfg;
          isHighTemp = temp > tempDangerMax cfg
      in if (isLowTemp \<and> \<not> coldCrashMode) \<or> isHighTemp then Danger
         else if (temp \<ge> tempDangerMin cfg \<and> temp < tempWarningMin cfg) \<or>
                 (temp > tempWarningMax cfg \<and> temp \<le> tempDangerMax cfg) then Warning
         else Good)"

text \<open>
  The class of the temperature card in \<open>displayDevices\<close>; \<open>None\<close> is the plain
  \<open>info-card\<close> the variable starts with, kept when there is no latest reading or no
  branch applies.
\<close>

definition tempClass :: "temp_config \<Rightarrow> bool \<Rightarrow> sample option \<Rightarrow> severity option" where
  "tempClass cfg coldCrashMode latestData =
     (case latestData of
        None \<Rightarrow> None
      | Some l \<Rightarrow>
          (let temp = temperature l;
               isLowDanger = temp < tempDangerMin cfg \<and> \<not> coldCrashMode;
               isHighDanger = temp > tempDangerMax cfg
           in if isLowDanger \<or> isHighDanger then Some Danger
              else if (temp \<ge> tempDangerMin cfg \<and> temp < tempWarningMin cfg) \<or>
                      (temp > tempWarningMax cfg \<and> temp \<le> tempDangerMax cfg) then Some Warning
              else if temp \<ge> tempWarningMin cfg \<and> temp \<le> tempWarningMax cfg then Some Good
              else if coldCrashMode \<and> temp < tempDangerMin cfg then Some Good
              else None))"

text \<open>
  The classification as the specification words it, for comparison with the two
  functions of the code.
\<close>

definition classify_spec :: "real \<Rightarrow> temp_config \<Rightarrow> bool \<Rightarrow> severity" where
  "classify_spec temp cfg coldCrashActive =
     (if coldCrashActive \<and> temp < tempDangerMin cfg then Good
      else if temp < tempDangerMin cfg \<or> temp > tempDangerMax cfg then Danger
      else if (tempDangerMin cfg \<le> temp \<and> temp < tempWarningMin cfg) \<or>
              (tempWarningMax cfg < temp \<and> temp \<le> tempDangerMax cfg) then Warning
      else Good)"

definition valid_config :: "temp_config \<Rightarrow> bool" where
  "valid_config cfg =
     (tempDangerMin cfg \<le> tempWarningMin cfg \<and> tempWarningMin cfg \<le> tempWarningMax cfg \<and>
      tempWarningMax cfg \<le> tempDangerMax cfg)"

subsection \<open>createChart\<close>

text \<open>
  The series handed to the chart. \<open>timeRange\<close> is a number of hours, or \<open>None\<close> for
  \<open>'all'\<close>; \<open>now\<close> is the current instant in milliseconds. The points are filtered
  and a copy of them is sorted oldest first.
\<close>

record chart_data =
  temperatures :: "real list"
  abv_series :: "real option list"
  attenuation_series :: "real option list"
  gravityVelocity_series :: "real list"
  tempColors :: "severity list"

definition recentData :: "int \<Rightarrow> int option \<Rightarrow> sample list \<Rightarrow> sample list" where
  "recentData now timeRange telemetryData =
     (case timeRange of
        None \<Rightarrow> telemetryData
      | Some h \<Rightarrow> filter (\<lambda>d. createdOn d \<ge> now - h * 60 * 60 * 1000) telemetryData)"

text \<open>\<open>d.gravityVelocity || 0\<close>: a missing or zero value reads as 0.\<close>

definition or_zero :: "real option \<Rightarrow> real" where
  "or_zero v = (if truthy v then (case v of Some x \<Rightarrow> x | None \<Rightarrow> 0) else 0)"

definition createChart :: "temp_config \<Rightarrow> bool \<Rightarrow> int \<Rightarrow> int option \<Rightarrow> sample list \<Rightarrow> chart_data" where
  "createChart cfg coldCrashMode now timeRange telemetryData =
     (let sortedData = sort_key createdOn (recentData now timeRange telemetryData)
      in \<lparr>temperatures = map temperature sortedData,
          abv_series = map abv sortedData,
          attenuation_series = map attenuation sortedData,
          gravityVelocity_series = map (\<lambda>d. or_zero (gravityVelocity d)) sortedData,
          tempColors = map (\<lambda>d. tempColor cfg coldCrashMode (temperature d)) sortedData\<rparr>)"

subsection \<open>displayDevices\<close>

text \<open>
  \<open>device.telemetry.sort(...)\<close> sorts the array the device refers to, and
  \<open>window.deviceTelemetryData[device.id]\<close> refers to the same array. Arrays therefore
  live in a store, and a device holds a reference into it.
\<close>

type_synonym ref = nat

record hydrometer =
  h_id :: string
  h_telemetry :: "ref option"

record client =
  arrays :: "ref \<rightharpoonup> sample list"
  deviceTelemetryData :: "string \<rightharpoonup> ref"
  tempConfig :: temp_config
  coldCrashMode :: bool

record card =
  latestData :: "sample option"
  lowBattery :: bool
  card_tempClass :: "severity option"

text \<open>The array \<open>device.telemetry\<close> refers to, when the property is there.\<close>

definition device_array :: "client \<Rightarrow> hydrometer \<Rightarrow> (ref \<times> sample list) option" where
  "device_array st d =
     (case h_telemetry d of
        None \<Rightarrow> None
      | Some r \<Rightarrow> (case arrays st r of None \<Rightarrow> None | Some xs \<Rightarrow> Some (r, xs)))"

text \<open>The first \<open>forEach\<close>: remember the telemetry of every device that has some.\<close>

definition store_telemetry :: "client \<Rightarrow> hydrometer \<Rightarrow> client" where
  "store_telemetry st d =
     (case device_array st d of
        None \<Rightarrow> st
      | Some (r, xs) \<Rightarrow>
          if length xs > 0
          then st\<lparr>deviceTelemetryData := (deviceTelemetryData st)(h_id d \<mapsto> r)\<rparr>
          else st)"

text \<open>
  \<open>sort((a, b) => new Date(b.createdOn) - new Date(a.createdOn))\<close>: newest first,
  stable.
\<close>

definition sort_newest_first :: "sample list \<Rightarrow> sample list" where
  "sort_newest_first xs = sort_key (\<lambda>s. - createdOn s) xs"

text \<open>
  The second \<open>forEach\<close>, for one device: the array is sorted where it is and its first
  element is the latest reading.
\<close>

definition render_device :: "client \<Rightarrow> hydrometer \<Rightarrow> client \<times> card" where
  "render_device st d =
     (let (st', latest) =
            (case device_array st d of
               None \<Rightarrow> (st, None)
             | Some (r, xs) \<Rightarrow>
                 if length xs > 0
                 then (let ys = sort_newest_first xs
                       in (st\<lparr>arrays := (arrays st)(r \<mapsto> ys)\<rparr>,
                           (case ys of [] \<Rightarrow> None | y # _ \<Rightarrow> Some y)))
                 else (st, None))
      in (st',
          \<lparr>latestData = latest,
           lowBattery = (case latest of None \<Rightarrow> False | Some l \<Rightarrow> battery l < 20),
           card_tempClass = tempClass (tempConfig st) (coldCrashMode st) latest\<rparr>))"

fun render_devices :: "client \<Rightarrow> hydrometer list \<Rightarrow> client \<times> card list" where
  "render_devices st [] = (st, [])"
| "render_devices st (d # ds) =
     (let (st1, c) = render_device st d;
          (st2, cs) = render_devices st1 ds
      in (st2, c # cs))"

definition displayDevices :: "client \<Rightarrow> hydrometer list \<Rightarrow> client \<times> card list" where
  "displayDevices st hydrometers =
     (if length hydrometers = 0 then (st, [])
      else render_devices (foldl store_telemetry st hydrometers) hydrometers)"

subsection \<open>Chronologically earliest points\<close>

text \<open>
  A point of the list that no other point precedes in time: the specification's
  ``chronologically earliest sample'', used to state what the third step returns.
\<close>

definition earliest :: "sample list \<Rightarrow> sample \<Rightarrow> bool" where
  "earliest tel s = (s \<in> set tel \<and> (\<forall>t\<in>set tel. createdOn s \<le> createdOn t))"

section \<open>Example inputs\<close>

text \<open>
  A point as the telemetry source sends it (no derived property), a device without and one
  with an active profile session, and an API whose profile session \<open>s1\<close> has the given
  original gravity. The windowed request succeeds for \<open>pill-1\<close> only, the one without
  dates for \<open>pill-2\<close> only; both fail for \<open>pill-3\<close>.
\<close>

definition raw :: "int \<Rightarrow> real \<Rightarrow> sample" where
  "raw t g =
     \<lparr>createdOn = t, gravity = g, temperature = 21, battery = 90, rssi = - 60,
      abv = None, attenuation = None, gravityVelocity = None\<rparr>"

definition ex_tel :: "sample list" where
  "ex_tel = [raw 3600000 1010, raw 0 1063]"

definition pill :: "string \<Rightarrow> session_ref option \<Rightarrow> device" where
  "pill i r = \<lparr>device_id = i, device_name = None, activeProfileSession = r, telemetry = None\<rparr>"

definition ex_devices :: "device list" where
  "ex_devices =
     [pill ''pill-1'' None,
      pill ''pill-2'' (Some \<lparr>ref_id = Some ''s1''\<rparr>),
      pill ''pill-3'' None]"

definition ex_api :: "real option \<Rightarrow> api" where
  "ex_api session_og =
     \<lparr>getHydrometers = Some ex_devices,
      getTelemetryWindowed = (\<lambda>h. if h = ''pill-1'' then Some ex_tel else None),
      getTelemetry = (\<lambda>h. if h = ''pill-2'' then Some ex_tel else None),
      getProfiles =
        Some [\<lparr>sessions = None\<rparr>,
              \<lparr>sessions = Some [\<lparr>session_id = ''s0'', originalGravity = Some 1040\<rparr>,
                                \<lparr>session_id = ''s1'', originalGravity = session_og\<rparr>]\<rparr>]\<rparr>"

definition ex_client :: client where
  "ex_client =
     \<lparr>arrays = [0 \<mapsto> [raw 0 1063, raw 7200000 1005, raw 3600000 1010]],
      deviceTelemetryData = Map.empty,
      tempConfig = defaultTempConfig,
      coldCrashMode = False\<rparr>"

section \<open>Properties of the serverless function\<close>

subsection \<open>Rounding to two decimals\<close>

lemma toFixed_nonneg: "0 \<le> x \<Longrightarrow> 0 \<le> toFixed f x"
  by (simp add: toFixed_def)

lemma toFixed_near:
  assumes "0 \<le> x"
  shows "\<exists>n::int. toFixed f x = of_int n / 10 ^ f \<and> x - 1 / (2 * 10 ^ f) < toFixed f x \<and> toFixed f x \<le> x + 1 / (2 * 10 ^ f)"
proof -
  define p :: real where "p = 10 ^ f"
  define n :: int where "n = \<lfloor>x * p + 1 / 2\<rfloor>"
  have p: "0 < p" by (simp add: p_def)
  have eq: "toFixed f x = of_int n / p" using assms by (simp add: toFixed_def n_def p_def)
  have le: "of_int n \<le> x * p + 1 / 2" unfolding n_def by (rule of_int_floor_le)
  have gt: "x * p + 1 / 2 < of_int n + 1" unfolding n_def by linarith
  have "of_int n / p \<le> (x * p + 1 / 2) / p"
    using le p by (simp add: divide_right_mono)
  also have "\<dots> = x + 1 / (2 * p)" using p by (simp add: field_simps)
  finally have a: "of_int n / p \<le> x + 1 / (2 * p)" .
  have "x * p - 1 / 2 < of_int n" using gt by linarith
  then have "(x * p - 1 / 2) / p < of_int n / p"
    using p by (simp add: divide_strict_right_mono)
  moreover have "(x * p - 1 / 2) / p = x - 1 / (2 * p)" using p by (simp add: field_simps)
  ultimately have b: "x - 1 / (2 * p) < of_int n / p" by simp
  show ?thesis using eq a b unfolding p_def by auto
qed

subsection \<open>Binary64 rounding\<close>

lemma powi_less_D: "(2::real) powi m < 2 powi n \<Longrightarrow> m < n"
proof (rule ccontr)
  assume lt: "(2::real) powi m < 2 powi n" and "\<not> m < n"
  then have "n \<le> m" by simp
  then have "(2::real) powi n \<le> 2 powi m" by (intro power_int_increasing) simp_all
  with lt show False by simp
qed

lemma find_exp_eqI:
  "k < n \<Longrightarrow> 2 powi (int k - 1022) \<le> a \<Longrightarrow> a < 2 powi (int k - 1021) \<Longrightarrow> find_exp n a = int k - 1022"
proof (induction n)
  case 0
  then show ?case by simp
next
  case (Suc n)
  show ?case
  proof (cases "2 powi (int n - 1022) \<le> a")
    case True
    with Suc.prems(3) have "(2::real) powi (int n - 1022) < 2 powi (int k - 1021)" by linarith
    then have "int n - 1022 < int k - 1021" by (rule powi_less_D)
    with Suc.prems(1) have "n = k" by linarith
    with True show ?thesis by simp
  next
    case False
    with Suc.prems(2) have "(2::real) powi (int k - 1022) < 2 powi (int n - 1022)" by linarith
    then have "int k - 1022 < int n - 1022" by (rule powi_less_D)
    then have "k < n" by simp
    with False Suc show ?thesis by simp
  qed
qed

lemma find_exp_cases: "find_exp n a = - 1022 \<or> 2 powi (find_exp n a) \<le> a"
  by (induction n) auto

lemma bexp_eqI:
  assumes "- 1022 \<le> e" and "e \<le> 1023" and "2 powi e \<le> \<bar>x\<bar>" and "\<bar>x\<bar> < 2 powi (e + 1)"
  shows "bexp x = e"
proof -
  define k where "k = nat (e + 1022)"
  have e: "e = int k - 1022" using assms(1) by (simp add: k_def)
  have k: "k < 2046" using assms(2) by (simp add: k_def)
  have "find_exp 2046 \<bar>x\<bar> = int k - 1022"
  proof (rule find_exp_eqI [OF k])
    show "2 powi (int k - 1022) \<le> \<bar>x\<bar>" using assms(3) e by simp
    have eq: "int k - 1021 = e + 1" using e by simp
    show "\<bar>x\<bar> < 2 powi (int k - 1021)" unfolding eq by (rule assms(4))
  qed
  then show ?thesis by (simp add: bexp_def e)
qed

lemma fl_eval:
  assumes "- 1022 \<le> e" and "e \<le> 1023" and "2 powi e \<le> \<bar>x\<bar>" and "\<bar>x\<bar> < 2 powi (e + 1)"
  shows "fl x = of_int (round_even (x / 2 powi (e - 52))) * 2 powi (e - 52)"
  unfolding fl_def bexp_eqI [OF assms] ..

lemma fl_zero: "fl 0 = 0"
  by (simp add: fl_def round_even_def)

lemma round_even_error: "\<bar>of_int (round_even y) - y\<bar> \<le> 1 / 2"
proof -
  have "of_int \<lfloor>y\<rfloor> \<le> y" "y < of_int \<lfloor>y\<rfloor> + 1" by linarith+
  then show ?thesis unfolding round_even_def Let_def by (auto simp: abs_le_iff)
qed

lemma fl_error_ulp: "\<bar>fl x - x\<bar> \<le> 2 powi (bexp x - 53)"
proof -
  define p :: real where "p = 2 powi (bexp x - 52)"
  have p: "0 < p" by (simp add: p_def)
  have half: "2 powi (bexp x - 53) = p / 2"
    unfolding p_def by (simp add: power_int_diff)
  have "fl x - x = (of_int (round_even (x / p)) - x / p) * p"
    using p by (simp add: fl_def p_def field_simps)
  then have "\<bar>fl x - x\<bar> = \<bar>of_int (round_even (x / p)) - x / p\<bar> * p"
    using p by (simp add: abs_mult)
  also have "\<dots> \<le> (1 / 2) * p"
    using p round_even_error [of "x / p"] by (intro mult_right_mono) simp_all
  finally show ?thesis by (simp add: half)
qed

lemma fl_error: "\<bar>fl x - x\<bar> \<le> \<bar>x\<bar> / 2 ^ 53 + 2 powi (- 1075)"
proof -
  from find_exp_cases [of 2046 "\<bar>x\<bar>"] consider "bexp x = - 1022" | "2 powi (bexp x) \<le> \<bar>x\<bar>"
    unfolding bexp_def by blast
  then show ?thesis
  proof cases
    case 1
    have "\<bar>fl x - x\<bar> \<le> 2 powi (- 1075)" using fl_error_ulp [of x] 1 by simp
    moreover have "0 \<le> \<bar>x\<bar> / 2 ^ 53" by simp
    ultimately show ?thesis by linarith
  next
    case 2
    have "(2::real) powi (bexp x - 53) = 2 powi (bexp x) / 2 ^ 53"
      by (simp add: power_int_diff)
    also have "\<dots> \<le> \<bar>x\<bar> / 2 ^ 53" using 2 by (intro divide_right_mono) simp_all
    finally have "\<bar>fl x - x\<bar> \<le> \<bar>x\<bar> / 2 ^ 53" using fl_error_ulp [of x] by linarith
    moreover have "(0::real) \<le> 2 powi (- 1075)" by simp
    ultimately show ?thesis by linarith
  qed
qed

lemma abv0_tolerance:
  fixes og g :: real
  defines "x \<equiv> fl (fl (fl (fl og / 1000) - fl (fl g / 1000)) * 131.25)"
  shows "\<bar>x - (og / 1000 - g / 1000) * 131.25\<bar> \<le> (\<bar>og\<bar> + \<bar>g\<bar>) / 2 ^ 53 + 2 powi (- 1065)"
proof -
  define eta :: real where "eta = 2 powi (- 1075)"
  have eta: "0 \<le> eta" by (simp add: eta_def)
  have err: "\<bar>fl y - y\<bar> \<le> \<bar>y\<bar> / 9007199254740992 + eta" for y
    using fl_error [of y] by (simp add: eta_def)
  define a where "a = fl og"
  define b where "b = fl g"
  define q where "q = fl (a / 1000)"
  define r where "r = fl (b / 1000)"
  define d where "d = fl (q - r)"
  have x: "x = fl (d * 131.25)" by (simp add: x_def d_def q_def r_def a_def b_def)
  define A where "A = \<bar>og\<bar>"
  define G where "G = \<bar>g\<bar>"
  define Ea where "Ea = \<bar>a - og\<bar>"
  define Eb where "Eb = \<bar>b - g\<bar>"
  define Na where "Na = \<bar>a\<bar>"
  define Nb where "Nb = \<bar>b\<bar>"
  define Eq0 where "Eq0 = \<bar>q - a / 1000\<bar>"
  define Er0 where "Er0 = \<bar>r - b / 1000\<bar>"
  define Eq where "Eq = \<bar>q - og / 1000\<bar>"
  define Er where "Er = \<bar>r - g / 1000\<bar>"
  define Dqr where "Dqr = \<bar>q - r\<bar>"
  define Ed0 where "Ed0 = \<bar>d - (q - r)\<bar>"
  define Ed where "Ed = \<bar>d - (og / 1000 - g / 1000)\<bar>"
  define Dd where "Dd = \<bar>d\<bar>"
  define Em0 where "Em0 = \<bar>x - d * (525 / 4)\<bar>"
  define Em where "Em = \<bar>x - (og / 1000 - g / 1000) * (525 / 4)\<bar>"
  have pos: "0 \<le> A" "0 \<le> G" by (simp_all add: A_def G_def)
  have a1: "Ea \<le> A / 9007199254740992 + eta" unfolding Ea_def A_def a_def by (rule err)
  have b1: "Eb \<le> G / 9007199254740992 + eta" unfolding Eb_def G_def b_def by (rule err)
  have na: "Na \<le> A + Ea" unfolding Na_def A_def Ea_def by linarith
  have nb: "Nb \<le> G + Eb" unfolding Nb_def G_def Eb_def by linarith
  have q0: "Eq0 \<le> Na / 9007199254740992000 + eta"
    using err [of "a / 1000"] by (simp add: Eq0_def Na_def q_def)
  have r0: "Er0 \<le> Nb / 9007199254740992000 + eta"
    using err [of "b / 1000"] by (simp add: Er0_def Nb_def r_def)
  have tq: "Eq \<le> Eq0 + Ea / 1000" unfolding Eq_def Eq0_def Ea_def by argo
  have tr: "Er \<le> Er0 + Eb / 1000" unfolding Er_def Er0_def Eb_def by argo
  have q1: "Eq \<le> 3 * A / 9007199254740992000 + 2 * eta"
    using a1 na q0 tq eta pos by linarith
  have r1: "Er \<le> 3 * G / 9007199254740992000 + 2 * eta"
    using b1 nb r0 tr eta pos by linarith
  have tqr: "Dqr \<le> (A + G) / 1000 + Eq + Er"
    unfolding Dqr_def A_def G_def Eq_def Er_def by argo
  have d0: "Ed0 \<le> Dqr / 9007199254740992 + eta"
    unfolding Ed0_def Dqr_def d_def by (rule err)
  have td: "Ed \<le> Ed0 + Eq + Er" unfolding Ed_def Ed0_def Eq_def Er_def by argo
  have d1: "Ed \<le> 5 * (A + G) / 9007199254740992000 + 6 * eta"
    using q1 r1 tqr d0 td eta pos by argo
  have tdd: "Dd \<le> (A + G) / 1000 + Ed" unfolding Dd_def A_def G_def Ed_def by argo
  have x': "x = fl (d * (525 / 4))" using x by simp
  have m0: "Em0 \<le> Dd * (525 / 4) / 9007199254740992 + eta"
    using err [of "d * (525 / 4)"] by (simp add: Em0_def Dd_def x' abs_mult)
  have "\<bar>x - (og / 1000 - g / 1000) * (525 / 4)\<bar> \<le>
          \<bar>x - d * (525 / 4)\<bar> + 525 / 4 * \<bar>d - (og / 1000 - g / 1000)\<bar>"
    by argo
  then have tm: "Em \<le> Em0 + 525 / 4 * Ed" by (simp add: Em_def Em0_def Ed_def)
  have m1: "Em \<le> (A + G) / 9007199254740992 + 1024 * eta"
    using d1 tdd m0 tm eta pos by argo
  have "(2::real) powi (- 1065) = 2 powi 10 * 2 powi (- 1075)"
    by (subst power_int_add [symmetric]) simp_all
  then have "1024 * eta = 2 powi (- 1065)" by (simp add: eta_def)
  with m1 have "Em \<le> (A + G) / 9007199254740992 + 2 powi (- 1065)" by simp
  then show ?thesis unfolding Em_def A_def G_def by simp
qed

lemma abv0_1063_1010: "fl (fl (fl (fl (1063) / 1000) - fl (fl (1010) / 1000)) * 131.25) = 3916020613486997 / 562949953421312"
proof -
  have a: "fl (1063) = 1063"
    by (subst fl_eval [of "10"], simp_all add: round_even_def)
  have b: "fl (1010) = 1010"
    by (subst fl_eval [of "9"], simp_all add: round_even_def)
  have q: "fl (fl (1063) / 1000) = 4787326403894837 / 4503599627370496"
    by (simp only: a) (subst fl_eval [of "0"], simp_all add: round_even_def)
  have r: "fl (fl (1010) / 1000) = 4548635623644201 / 4503599627370496"
    by (simp only: b) (subst fl_eval [of "0"], simp_all add: round_even_def)
  have d: "fl (fl (fl (1063) / 1000) - fl (fl (1010) / 1000)) = 59672695062659 / 1125899906842624"
    by (simp only: q r) (subst fl_eval [of "- 5"], simp_all add: round_even_def)
  have m: "fl (fl (fl (fl (1063) / 1000) - fl (fl (1010) / 1000)) * 131.25) = 3916020613486997 / 562949953421312"
    by (simp only: d) (subst fl_eval [of "2"], simp_all add: round_even_def)
  show ?thesis by (rule m)
qed

lemma enrich_1063_1010: "enrich (1063) (raw 3600000 1010) = (raw 3600000 1010)\<lparr>abv := Some (174 / 25)\<rparr>"
proof -
  have g: "gravity (raw 3600000 1010) = 1010" by (simp add: raw_def)
  show ?thesis unfolding enrich_def Let_def g abv0_1063_1010 by (simp add: toFixed_def)
qed

lemma abv0_1063_1063: "fl (fl (fl (fl (1063) / 1000) - fl (fl (1063) / 1000)) * 131.25) = 0"
proof -
  have a: "fl (1063) = 1063"
    by (subst fl_eval [of "10"], simp_all add: round_even_def)
  have b: "fl (1063) = 1063"
    by (subst fl_eval [of "10"], simp_all add: round_even_def)
  have q: "fl (fl (1063) / 1000) = 4787326403894837 / 4503599627370496"
    by (simp only: a) (subst fl_eval [of "0"], simp_all add: round_even_def)
  have r: "fl (fl (1063) / 1000) = 4787326403894837 / 4503599627370496"
    by (simp only: b) (subst fl_eval [of "0"], simp_all add: round_even_def)
  have d: "fl (fl (fl (1063) / 1000) - fl (fl (1063) / 1000)) = 0"
    by (simp only: q r) (simp add: fl_zero)
  have m: "fl (fl (fl (fl (1063) / 1000) - fl (fl (1063) / 1000)) * 131.25) = 0"
    by (simp only: d) (simp add: fl_zero)
  show ?thesis by (rule m)
qed

lemma enrich_1063_1063: "enrich (1063) (raw 0 1063) = (raw 0 1063)\<lparr>abv := Some (0)\<rparr>"
proof -
  have g: "gravity (raw 0 1063) = 1063" by (simp add: raw_def)
  show ?thesis unfolding enrich_def Let_def g abv0_1063_1063 by (simp add: toFixed_def)
qed

text \<open>
  Two points where the rounding of the operations decides the second decimal: exact
  arithmetic gives 0.525 and 7.455, the binary64 operations give values just below, and
  \<open>toFixed\<close> prints 0.52 and 7.45.
\<close>

lemma abv0_1003_999: "fl (fl (fl (fl (1003) / 1000) - fl (fl (999) / 1000)) * 131.25) = 2364389804369447 / 4503599627370496"
proof -
  have a: "fl (1003) = 1003"
    by (subst fl_eval [of "9"], simp_all add: round_even_def)
  have b: "fl (999) = 999"
    by (subst fl_eval [of "9"], simp_all add: round_even_def)
  have q: "fl (fl (1003) / 1000) = 4517110426252607 / 4503599627370496"
    by (simp only: a) (subst fl_eval [of "0"], simp_all add: round_even_def)
  have r: "fl (fl (999) / 1000) = 8998192055486251 / 9007199254740992"
    by (simp only: b) (subst fl_eval [of "- 1"], simp_all add: round_even_def)
  have d: "fl (fl (fl (1003) / 1000) - fl (fl (999) / 1000)) = 36028797018963 / 9007199254740992"
    by (simp only: q r) (subst fl_eval [of "- 8"], simp_all add: round_even_def)
  have m: "fl (fl (fl (fl (1003) / 1000) - fl (fl (999) / 1000)) * 131.25) = 2364389804369447 / 4503599627370496"
    by (simp only: d) (subst fl_eval [of "- 1"], simp_all add: round_even_def)
  show ?thesis by (rule m)
qed

lemma enrich_1003_999: "enrich (1003) (raw 3600000 999) = (raw 3600000 999)\<lparr>abv := Some (13 / 25)\<rparr>"
proof -
  have g: "gravity (raw 3600000 999) = 999" by (simp add: raw_def)
  show ?thesis unfolding enrich_def Let_def g abv0_1003_999 by (simp add: toFixed_def)
qed

lemma abv0_1063_10062: "fl (fl (fl (fl (1063) / 1000) - fl (fl (5031 / 5) / 1000)) * 131.25) = 2098395951377939 / 281474976710656"
proof -
  have a: "fl (1063) = 1063"
    by (subst fl_eval [of "10"], simp_all add: round_even_def)
  have b: "fl (5031 / 5) = 4425314399472845 / 4398046511104"
    by (subst fl_eval [of "9"], simp_all add: round_even_def)
  have q: "fl (fl (1063) / 1000) = 4787326403894837 / 4503599627370496"
    by (simp only: a) (subst fl_eval [of "0"], simp_all add: round_even_def)
  have r: "fl (fl (5031 / 5) / 1000) = 4531521945060193 / 4503599627370496"
    by (simp only: b) (subst fl_eval [of "0"], simp_all add: round_even_def)
  have d: "fl (fl (fl (1063) / 1000) - fl (fl (5031 / 5) / 1000)) = 63951114708661 / 1125899906842624"
    by (simp only: q r) (subst fl_eval [of "- 5"], simp_all add: round_even_def)
  have m: "fl (fl (fl (fl (1063) / 1000) - fl (fl (5031 / 5) / 1000)) * 131.25) = 2098395951377939 / 281474976710656"
    by (simp only: d) (subst fl_eval [of "2"], simp_all add: round_even_def)
  show ?thesis by (rule m)
qed

lemma enrich_1063_10062: "enrich (1063) (raw 3600000 (5031 / 5)) = (raw 3600000 (5031 / 5))\<lparr>abv := Some (149 / 20)\<rparr>"
proof -
  have g: "gravity (raw 3600000 (5031 / 5)) = 5031 / 5" by (simp add: raw_def)
  show ?thesis unfolding enrich_def Let_def g abv0_1063_10062 by (simp add: toFixed_def)
qed

subsection \<open>The loop over the devices never fails\<close>

lemma og_first_total: "tel \<noteq> [] \<Longrightarrow> \<exists>og. og_first tel v = Inr og"
proof -
  assume ne: "tel \<noteq> []"
  then have "sortedByDate tel \<noteq> []"
    by (metis sortedByDate_def set_sort set_empty)
  then obtain s ss where "sortedByDate tel = s # ss" by (cases "sortedByDate tel") auto
  then show ?thesis
    by (cases v) (auto simp: og_first_def truthy_def)
qed

lemma resolve_og_total: "tel \<noteq> [] \<Longrightarrow> \<exists>og. resolve_og c a d tel = Inr og"
  by (simp add: resolve_og_def og_first_total)

lemma enrichDevice_total: "\<exists>d'. enrichDevice c a d = Inr d' \<and> device_id d' = device_id d"
proof (cases "fst (fetchTelemetry a (device_id d)) = []")
  case True
  then show ?thesis by (simp add: enrichDevice_def)
next
  case False
  then obtain og where "resolve_og c a d (fst (fetchTelemetry a (device_id d))) = Inr og"
    using resolve_og_total by blast
  with False show ?thesis by (simp add: enrichDevice_def Let_def)
qed

lemma enrichDevices_total:
  "\<exists>out. enrichDevices c a ds = Inr out \<and> length out = length ds \<and>
     (\<forall>i<length ds. enrichDevice c a (ds ! i) = Inr (out ! i))"
proof (induction ds)
  case Nil
  then show ?case by simp
next
  case (Cons d ds)
  obtain d' where d': "enrichDevice c a d = Inr d'" using enrichDevice_total by blast
  from Cons obtain out where out: "enrichDevices c a ds = Inr out" "length out = length ds"
    "\<forall>i<length ds. enrichDevice c a (ds ! i) = Inr (out ! i)" by blast
  have "\<forall>i<length (d # ds). enrichDevice c a ((d # ds) ! i) = Inr ((d' # out) ! i)"
    using d' out(3) by (auto simp: nth_Cons split: nat.splits)
  then show ?case using d' out by simp
qed

lemma enrichDevice_empty: "fst (fetchTelemetry a (device_id d)) = [] \<Longrightarrow> enrichDevice c a d = Inr d"
  by (simp add: enrichDevice_def)

lemma enrichDevice_nonempty:
  "fst (fetchTelemetry a (device_id d)) = tel \<Longrightarrow> tel \<noteq> [] \<Longrightarrow> resolve_og c a d tel = Inr og \<Longrightarrow>
   enrichDevice c a d = Inr (d\<lparr>telemetry := Some (map (enrich og) tel)\<rparr>)"
  by (simp add: enrichDevice_def Let_def)

lemma enrich_abv:
  "abv (enrich og t) =
     Some (toFixed 2 (max 0 (fl (fl (fl (fl og / 1000) - fl (fl (gravity t) / 1000)) * 131.25))))"
  by (simp add: enrich_def Let_def)

lemma enrich_other_fields:
  "attenuation (enrich og t) = attenuation t" "gravityVelocity (enrich og t) = gravityVelocity t"
  "gravity (enrich og t) = gravity t" "createdOn (enrich og t) = createdOn t"
  by (simp_all add: enrich_def Let_def)

lemma fetchHydrometers_total:
  assumes "getHydrometers a = Some ds"
  shows "\<exists>out. fetchHydrometers c a = Inr out \<and> length out = length ds \<and>
           (\<forall>i<length ds. enrichDevice c a (ds ! i) = Inr (out ! i))"
  using assms enrichDevices_total [of c a ds] by (simp add: fetchHydrometers_def)

text \<open>
  C3. Every point of a device with telemetry comes back with
  \<open>abv = max(0, (og/1000 - gravity/1000) * 131.25)\<close> rounded to two decimals, where
  \<open>og\<close> is the original gravity resolved for the device. The expression is evaluated
  in binary64, as the code does: its value \<open>x\<close> differs from the exact one by at most
  \<open>(|og| + |gravity|) / 2^53 + 2^(-1065)\<close>, and \<open>abv\<close> is \<open>max(0, x)\<close> rounded by
  \<open>toFixed(2)\<close>, a whole number of hundredths within half a hundredth of it. It is
  never negative, also when the gravity of the point exceeds \<open>og\<close>.
\<close>

theorem abv_of_enriched_samples:
  assumes "fst (fetchTelemetry a (device_id d)) = tel" and "tel \<noteq> []"
    and "resolve_og c a d tel = Inr og"
  shows "\<exists>ts. enrichDevice c a d = Inr (d\<lparr>telemetry := Some ts\<rparr>) \<and> length ts = length tel \<and>
           (\<forall>i<length tel. \<exists>v n x.
               x = fl (fl (fl (fl og / 1000) - fl (fl (gravity (tel ! i)) / 1000)) * 131.25) \<and>
               abv (ts ! i) = Some v \<and>
               v = toFixed 2 (max 0 x) \<and>
               0 \<le> v \<and> v = of_int n / 100 \<and>
               \<bar>v - max 0 x\<bar> \<le> 1 / 200 \<and>
               \<bar>x - (og / 1000 - gravity (tel ! i) / 1000) * 131.25\<bar> \<le>
                 (\<bar>og\<bar> + \<bar>gravity (tel ! i)\<bar>) / 2 ^ 53 + 2 powi (- 1065))"
proof -
  have run: "enrichDevice c a d = Inr (d\<lparr>telemetry := Some (map (enrich og) tel)\<rparr>)"
    using assms by (rule enrichDevice_nonempty)
  have each: "\<exists>v n x.
               x = fl (fl (fl (fl og / 1000) - fl (fl (gravity (tel ! i)) / 1000)) * 131.25) \<and>
               abv (map (enrich og) tel ! i) = Some v \<and>
               v = toFixed 2 (max 0 x) \<and>
               0 \<le> v \<and> v = of_int n / 100 \<and>
               \<bar>v - max 0 x\<bar> \<le> 1 / 200 \<and>
               \<bar>x - (og / 1000 - gravity (tel ! i) / 1000) * 131.25\<bar> \<le>
                 (\<bar>og\<bar> + \<bar>gravity (tel ! i)\<bar>) / 2 ^ 53 + 2 powi (- 1065)"
    if i: "i < length tel" for i
  proof -
    define x where "x = fl (fl (fl (fl og / 1000) - fl (fl (gravity (tel ! i)) / 1000)) * 131.25)"
    define y where "y = max 0 x"
    have y0: "0 \<le> y" by (simp add: y_def)
    from toFixed_near [OF y0, of 2] obtain n :: int where
      n: "toFixed 2 y = of_int n / 10 ^ 2" "y - 1 / (2 * 10 ^ 2) < toFixed 2 y"
         "toFixed 2 y \<le> y + 1 / (2 * 10 ^ 2)" by blast
    have c1: "abv (map (enrich og) tel ! i) = Some (toFixed 2 y)"
      using i by (simp add: enrich_abv x_def y_def)
    have c2: "0 \<le> toFixed 2 y" using y0 by (rule toFixed_nonneg)
    have c3: "toFixed 2 y = of_int n / 100" using n(1) by simp
    have c4: "\<bar>toFixed 2 y - y\<bar> \<le> 1 / 200"
    proof -
      have lo: "y - 1 / 200 < toFixed 2 y" using n(2) by simp
      have hi: "toFixed 2 y \<le> y + 1 / 200" using n(3) by simp
      show ?thesis using lo hi by linarith
    qed
    have c5: "\<bar>x - (og / 1000 - gravity (tel ! i) / 1000) * 131.25\<bar> \<le>
                 (\<bar>og\<bar> + \<bar>gravity (tel ! i)\<bar>) / 2 ^ 53 + 2 powi (- 1065)"
      unfolding x_def by (rule abv0_tolerance)
    show ?thesis
      using c1 c2 c3 c4 c5 unfolding y_def
      by (intro exI [of _ "toFixed 2 (max 0 x)"] exI [of _ n] exI [of _ x] conjI)
         (simp_all add: x_def)
  qed
  show ?thesis using run each by (intro exI [of _ "map (enrich og) tel"]) simp
qed

theorem abv_of_enriched_samples_witness:
  "\<exists>ts. enrichDevice \<lparr>manualOriginalGravity = None\<rparr> (ex_api None) (pill ''pill-1'' None) =
          Inr ((pill ''pill-1'' None)\<lparr>telemetry := Some ts\<rparr>) \<and>
        abv (ts ! 0) = Some 6.96 \<and> abv (ts ! 1) = Some 0"
proof -
  have h1: "fst (fetchTelemetry (ex_api None) (device_id (pill ''pill-1'' None))) = ex_tel"
    by (simp add: fetchTelemetry_def ex_api_def pill_def)
  have h2: "ex_tel \<noteq> []" by (simp add: ex_tel_def)
  have h3: "resolve_og \<lparr>manualOriginalGravity = None\<rparr> (ex_api None) (pill ''pill-1'' None) ex_tel = Inr 1063"
    by (simp add: resolve_og_def og_first_def og_manual_def og_session_def truthy_def pill_def
        sortedByDate_def ex_tel_def raw_def)
  from abv_of_enriched_samples [OF h1 h2 h3] obtain ts where
    run: "enrichDevice \<lparr>manualOriginalGravity = None\<rparr> (ex_api None) (pill ''pill-1'' None) =
          Inr ((pill ''pill-1'' None)\<lparr>telemetry := Some ts\<rparr>)"
    and each: "\<And>i. i < length ex_tel \<Longrightarrow> \<exists>v n x.
               x = fl (fl (fl (fl 1063 / 1000) - fl (fl (gravity (ex_tel ! i)) / 1000)) * 131.25) \<and>
               abv (ts ! i) = Some v \<and> v = toFixed 2 (max 0 x)"
    by blast
  have g0: "gravity (ex_tel ! 0) = 1010" by (simp add: ex_tel_def raw_def)
  have g1: "gravity (ex_tel ! 1) = 1063" by (simp add: ex_tel_def raw_def)
  have l0: "0 < length ex_tel" and l1: "1 < length ex_tel" by (simp_all add: ex_tel_def)
  from each [OF l0] obtain v0 x0 where
    x0: "x0 = fl (fl (fl (fl 1063 / 1000) - fl (fl (gravity (ex_tel ! 0)) / 1000)) * 131.25)"
    and v0: "abv (ts ! 0) = Some v0" "v0 = toFixed 2 (max 0 x0)" by blast
  have "x0 = 3916020613486997 / 562949953421312" using x0 unfolding g0 abv0_1063_1010 .
  with v0 have a0: "abv (ts ! 0) = Some 6.96" by (simp add: toFixed_def)
  from each [OF l1] obtain v1 x1 where
    x1: "x1 = fl (fl (fl (fl 1063 / 1000) - fl (fl (gravity (ex_tel ! 1)) / 1000)) * 131.25)"
    and v1: "abv (ts ! 1) = Some v1" "v1 = toFixed 2 (max 0 x1)" by blast
  have "x1 = 0" using x1 unfolding g1 abv0_1063_1063 .
  with v1 have a1: "abv (ts ! 1) = Some 0" by (simp add: toFixed_def)
  from run a0 a1 show ?thesis by blast
qed

text \<open>
  C6. When the telemetry fetched for a device is empty, the loop body does nothing for it:
  no original gravity is resolved, nothing is computed or attached, no error is raised,
  and the device is in the output as the device list gave it.
\<close>

theorem empty_telemetry_skipped:
  assumes "getHydrometers a = Some ds" and "i < length ds"
    and "fst (fetchTelemetry a (device_id (ds ! i))) = []"
  shows "enrichDevice c a (ds ! i) = Inr (ds ! i) \<and>
         (\<exists>out. fetchHydrometers c a = Inr out \<and> length out = length ds \<and> out ! i = ds ! i)"
proof -
  have one: "enrichDevice c a (ds ! i) = Inr (ds ! i)"
    using assms(3) by (rule enrichDevice_empty)
  from fetchHydrometers_total [OF assms(1), of c] obtain out where
    out: "fetchHydrometers c a = Inr out" "length out = length ds"
      "\<forall>i<length ds. enrichDevice c a (ds ! i) = Inr (out ! i)" by blast
  from out(3) assms(2) one have "out ! i = ds ! i" by auto
  with one out show ?thesis by blast
qed

theorem empty_telemetry_skipped_witness:
  "getHydrometers (ex_api None) = Some ex_devices \<and> 2 < length ex_devices \<and>
   fst (fetchTelemetry (ex_api None) (device_id (ex_devices ! 2))) = [] \<and>
   enrichDevice \<lparr>manualOriginalGravity = Some 1050\<rparr> (ex_api None) (ex_devices ! 2) = Inr (ex_devices ! 2) \<and>
   telemetry (ex_devices ! 2) = None \<and>
   (\<exists>out. fetchHydrometers \<lparr>manualOriginalGravity = Some 1050\<rparr> (ex_api None) = Inr out \<and>
          length out = length ex_devices \<and> out ! 2 = ex_devices ! 2)"
proof -
  have h1: "getHydrometers (ex_api None) = Some ex_devices" by (simp add: ex_api_def)
  have h2: "2 < length ex_devices" by (simp add: ex_devices_def)
  have h3: "fst (fetchTelemetry (ex_api None) (device_id (ex_devices ! 2))) = []"
    by (simp add: fetchTelemetry_def ex_api_def ex_devices_def pill_def)
  have h4: "telemetry (ex_devices ! 2) = None" by (simp add: ex_devices_def pill_def)
  show ?thesis
    using empty_telemetry_skipped [OF h1 h2 h3, of "\<lparr>manualOriginalGravity = Some 1050\<rparr>"] h1 h2 h3 h4
    by blast
qed

subsection \<open>Telemetry requests and derived properties\<close>

lemma fetchTelemetry_both_fail:
  "getTelemetryWindowed a h = None \<Longrightarrow> getTelemetry a h = None \<Longrightarrow> fst (fetchTelemetry a h) = []"
  by (simp add: fetchTelemetry_def)

lemma og_session_Some_iff:
  "og_session a d = Some v \<longleftrightarrow>
     (\<exists>r i s. activeProfileSession d = Some r \<and> ref_id r = Some i \<and> i \<noteq> [] \<and>
        fetchProfileSession a i = Some s \<and> originalGravity s = Some v \<and> v \<noteq> 0)"
  by (auto simp: og_session_def truthy_def split: option.splits if_splits)

lemma og_first_truthy: "v \<noteq> 0 \<Longrightarrow> og_first tel (Some v) = Inr v"
  by (simp add: og_first_def truthy_def)

text \<open>
  C7. \<open>fetchTelemetry\<close> makes the request with the date window first and the request
  without it only when the first fails; when both fail its result is the empty list. No
  outcome of the telemetry requests makes \<open>fetchHydrometers\<close> fail: once the device
  list is there, every device is in the output, and a device whose two requests fail is
  returned as the device list gave it.
\<close>

theorem telemetry_fetch_fallback:
  "hd (snd (fetchTelemetry a h)) = Windowed h \<and>
   (Unwindowed h \<in> set (snd (fetchTelemetry a h)) \<longleftrightarrow> getTelemetryWindowed a h = None) \<and>
   (\<forall>data. getTelemetryWindowed a h = Some data \<longrightarrow> fetchTelemetry a h = (data, [Windowed h])) \<and>
   (\<forall>data2. getTelemetryWindowed a h = None \<and> getTelemetry a h = Some data2 \<longrightarrow>
       fetchTelemetry a h = (data2, [Windowed h, Unwindowed h])) \<and>
   (getTelemetryWindowed a h = None \<and> getTelemetry a h = None \<longrightarrow>
       fetchTelemetry a h = ([], [Windowed h, Unwindowed h])) \<and>
   (\<forall>ds. getHydrometers a = Some ds \<longrightarrow>
      (\<exists>out. fetchHydrometers c a = Inr out \<and> map device_id out = map device_id ds \<and>
         (\<forall>i<length ds.
            getTelemetryWindowed a (device_id (ds ! i)) = None \<and>
            getTelemetry a (device_id (ds ! i)) = None \<longrightarrow> out ! i = ds ! i)))"
proof -
  have calls: "hd (snd (fetchTelemetry a h)) = Windowed h"
    by (simp add: fetchTelemetry_def split: option.splits)
  have fallback: "Unwindowed h \<in> set (snd (fetchTelemetry a h)) \<longleftrightarrow> getTelemetryWindowed a h = None"
    by (auto simp: fetchTelemetry_def split: option.splits)
  have first: "\<forall>data. getTelemetryWindowed a h = Some data \<longrightarrow> fetchTelemetry a h = (data, [Windowed h])"
    by (simp add: fetchTelemetry_def)
  have second: "\<forall>data2. getTelemetryWindowed a h = None \<and> getTelemetry a h = Some data2 \<longrightarrow>
       fetchTelemetry a h = (data2, [Windowed h, Unwindowed h])"
    by (simp add: fetchTelemetry_def)
  have none: "getTelemetryWindowed a h = None \<and> getTelemetry a h = None \<longrightarrow>
       fetchTelemetry a h = ([], [Windowed h, Unwindowed h])"
    by (simp add: fetchTelemetry_def)
  have whole: "\<exists>out. fetchHydrometers c a = Inr out \<and> map device_id out = map device_id ds \<and>
         (\<forall>i<length ds.
            getTelemetryWindowed a (device_id (ds ! i)) = None \<and>
            getTelemetry a (device_id (ds ! i)) = None \<longrightarrow> out ! i = ds ! i)"
    if ds: "getHydrometers a = Some ds" for ds
  proof -
    from fetchHydrometers_total [OF ds, of c] obtain out where
      out: "fetchHydrometers c a = Inr out" "length out = length ds"
        "\<forall>i<length ds. enrichDevice c a (ds ! i) = Inr (out ! i)" by blast
    have ids: "map device_id out = map device_id ds"
    proof (rule nth_equalityI)
      show "length (map device_id out) = length (map device_id ds)" using out(2) by simp
    next
      fix i assume "i < length (map device_id out)"
      then have i: "i < length ds" using out(2) by simp
      obtain d' where "enrichDevice c a (ds ! i) = Inr d'" "device_id d' = device_id (ds ! i)"
        using enrichDevice_total by blast
      with out(3) i have "device_id (out ! i) = device_id (ds ! i)" by auto
      then show "map device_id out ! i = map device_id ds ! i" using i out(2) by simp
    qed
    have nodata: "out ! i = ds ! i"
      if "i < length ds" "getTelemetryWindowed a (device_id (ds ! i)) = None"
         "getTelemetry a (device_id (ds ! i)) = None" for i
    proof -
      have "enrichDevice c a (ds ! i) = Inr (ds ! i)"
        using that(2,3) by (intro enrichDevice_empty fetchTelemetry_both_fail)
      with out(3) that(1) show ?thesis by auto
    qed
    show ?thesis using out(1) ids nodata by blast
  qed
  show ?thesis using calls fallback first second none whole by blast
qed

theorem telemetry_fetch_fallback_witness:
  "getTelemetryWindowed (ex_api None) ''pill-1'' = Some ex_tel \<and>
   fetchTelemetry (ex_api None) ''pill-1'' = (ex_tel, [Windowed ''pill-1'']) \<and>
   getTelemetryWindowed (ex_api None) ''pill-2'' = None \<and>
   getTelemetry (ex_api None) ''pill-2'' = Some ex_tel \<and>
   fetchTelemetry (ex_api None) ''pill-2'' = (ex_tel, [Windowed ''pill-2'', Unwindowed ''pill-2'']) \<and>
   getTelemetryWindowed (ex_api None) ''pill-3'' = None \<and>
   getTelemetry (ex_api None) ''pill-3'' = None \<and>
   fetchTelemetry (ex_api None) ''pill-3'' = ([], [Windowed ''pill-3'', Unwindowed ''pill-3'']) \<and>
   getHydrometers (ex_api None) = Some ex_devices \<and>
   (\<exists>out. fetchHydrometers \<lparr>manualOriginalGravity = None\<rparr> (ex_api None) = Inr out \<and>
          map device_id out = [''pill-1'', ''pill-2'', ''pill-3''] \<and> out ! 2 = ex_devices ! 2)"
proof -
  have w1: "getTelemetryWindowed (ex_api None) ''pill-1'' = Some ex_tel" by (simp add: ex_api_def)
  have w2: "getTelemetryWindowed (ex_api None) ''pill-2'' = None" by (simp add: ex_api_def)
  have u2: "getTelemetry (ex_api None) ''pill-2'' = Some ex_tel" by (simp add: ex_api_def)
  have w3: "getTelemetryWindowed (ex_api None) ''pill-3'' = None" by (simp add: ex_api_def)
  have u3: "getTelemetry (ex_api None) ''pill-3'' = None" by (simp add: ex_api_def)
  have ds: "getHydrometers (ex_api None) = Some ex_devices" by (simp add: ex_api_def)
  have id2: "device_id (ex_devices ! 2) = ''pill-3''" by (simp add: ex_devices_def pill_def)
  have ids: "map device_id ex_devices = [''pill-1'', ''pill-2'', ''pill-3'']"
    by (simp add: ex_devices_def pill_def)
  have len: "2 < length ex_devices" by (simp add: ex_devices_def)
  have f1: "fetchTelemetry (ex_api None) ''pill-1'' = (ex_tel, [Windowed ''pill-1''])"
    using telemetry_fetch_fallback [of "ex_api None" "''pill-1''"] w1 by blast
  have f2: "fetchTelemetry (ex_api None) ''pill-2'' = (ex_tel, [Windowed ''pill-2'', Unwindowed ''pill-2''])"
    using telemetry_fetch_fallback [of "ex_api None" "''pill-2''"] w2 u2 by blast
  have f3: "fetchTelemetry (ex_api None) ''pill-3'' = ([], [Windowed ''pill-3'', Unwindowed ''pill-3''])"
    using telemetry_fetch_fallback [of "ex_api None" "''pill-3''"] w3 u3 by blast
  from telemetry_fetch_fallback [of "ex_api None" "''pill-3''" "\<lparr>manualOriginalGravity = None\<rparr>"] ds
  obtain out where out: "fetchHydrometers \<lparr>manualOriginalGravity = None\<rparr> (ex_api None) = Inr out"
    "map device_id out = map device_id ex_devices"
    "\<forall>i<length ex_devices.
        getTelemetryWindowed (ex_api None) (device_id (ex_devices ! i)) = None \<and>
        getTelemetry (ex_api None) (device_id (ex_devices ! i)) = None \<longrightarrow> out ! i = ex_devices ! i"
    by blast
  have "out ! 2 = ex_devices ! 2" using out(3) len w3 u3 id2 by simp
  with out(1,2) ids w1 w2 u2 w3 u3 ds f1 f2 f3 show ?thesis by simp
qed

text \<open>
  C1. The README gives \<open>Attenuation = ((OG - FG) / (OG - 1.000)) * 100\<close> as computed
  from the gravity readings, and the client displays the \<open>attenuation\<close> of a point.
  The mapping in \<open>fetchHydrometers\<close> adds \<open>abv\<close> only: for the device
  \<open>pill-1\<close> (original gravity 1063 from the earliest point, gravities 1010 and 1063)
  the points come back with abv 6.96 and 0 and without an attenuation, where the formula
  gives about 84.13 and 0.
\<close>

theorem attenuation_absent:
  "(case enrichDevice \<lparr>manualOriginalGravity = None\<rparr> (ex_api None) (pill ''pill-1'' None) of
      Inl e \<Rightarrow> None
    | Inr d' \<Rightarrow> telemetry d') =
     Some [(raw 3600000 1010)\<lparr>abv := Some 6.96\<rparr>, (raw 0 1063)\<lparr>abv := Some 0\<rparr>] \<and>
   attenuation ((raw 3600000 1010)\<lparr>abv := Some 6.96\<rparr>) = None \<and>
   attenuation ((raw 0 1063)\<lparr>abv := Some 0\<rparr>) = None"
proof -
  have h1: "fst (fetchTelemetry (ex_api None) (device_id (pill ''pill-1'' None))) = ex_tel"
    by (simp add: fetchTelemetry_def ex_api_def pill_def)
  have h2: "ex_tel \<noteq> []" by (simp add: ex_tel_def)
  have h3: "resolve_og \<lparr>manualOriginalGravity = None\<rparr> (ex_api None) (pill ''pill-1'' None) ex_tel = Inr 1063"
    by (simp add: resolve_og_def og_first_def og_manual_def og_session_def truthy_def pill_def
        sortedByDate_def ex_tel_def raw_def)
  have "map (enrich 1063) ex_tel = [(raw 3600000 1010)\<lparr>abv := Some 6.96\<rparr>, (raw 0 1063)\<lparr>abv := Some 0\<rparr>]"
    unfolding ex_tel_def list.map enrich_1063_1010 enrich_1063_1063 by simp
  then show ?thesis
    using enrichDevice_nonempty [OF h1 h2 h3] by (simp add: raw_def)
qed

text \<open>
  C8, as the code has it. The function computes no gravity velocity: a point comes back
  with the \<open>gravityVelocity\<close> the telemetry source gave it, or without one when the
  source gave none, the earliest point like every other. The chart of the second variant
  plots \<open>d.gravityVelocity || 0\<close>, that is 0 for a point without one.
\<close>

theorem gravityVelocity_passed_through:
  "(\<forall>tel. fst (fetchTelemetry a (device_id d)) = tel \<and> tel \<noteq> [] \<longrightarrow>
      (\<exists>ts. enrichDevice c a d = Inr (d\<lparr>telemetry := Some ts\<rparr>) \<and>
            map gravityVelocity ts = map gravityVelocity tel)) \<and>
   gravityVelocity_series (createChart cfg cc now timeRange ts) =
     map (\<lambda>s. case gravityVelocity s of None \<Rightarrow> 0 | Some v \<Rightarrow> v)
       (sort_key createdOn (recentData now timeRange ts))"
proof -
  have a: "\<exists>ts. enrichDevice c a d = Inr (d\<lparr>telemetry := Some ts\<rparr>) \<and>
            map gravityVelocity ts = map gravityVelocity tel"
    if t1: "fst (fetchTelemetry a (device_id d)) = tel" and t2: "tel \<noteq> []" for tel
  proof -
    obtain og where og: "resolve_og c a d tel = Inr og" using resolve_og_total [OF t2] by blast
    have "map gravityVelocity (map (enrich og) tel) = map gravityVelocity tel"
      by (simp add: enrich_other_fields)
    then show ?thesis using enrichDevice_nonempty [OF t1 t2 og] by blast
  qed
  have z: "or_zero v = (case v of None \<Rightarrow> 0 | Some x \<Rightarrow> x)" for v
    by (cases v) (simp_all add: or_zero_def truthy_def)
  have b: "gravityVelocity_series (createChart cfg cc now timeRange ts) =
     map (\<lambda>s. case gravityVelocity s of None \<Rightarrow> 0 | Some v \<Rightarrow> v)
       (sort_key createdOn (recentData now timeRange ts))"
    by (simp add: createChart_def Let_def z)
  show ?thesis using a b by blast
qed

theorem gravityVelocity_passed_through_witness:
  "fst (fetchTelemetry (ex_api None) (device_id (pill ''pill-1'' None))) =
     [raw 3600000 1010, raw 0 1063] \<and>
   (\<exists>ts. enrichDevice \<lparr>manualOriginalGravity = None\<rparr> (ex_api None) (pill ''pill-1'' None) =
          Inr ((pill ''pill-1'' None)\<lparr>telemetry := Some ts\<rparr>) \<and>
        map gravityVelocity ts = [None, None]) \<and>
   gravityVelocity_series
     (createChart defaultTempConfig False 0 None
        [(raw 3600000 1010)\<lparr>gravityVelocity := Some (- 53)\<rparr>, raw 0 1063]) = [0, - 53]"
proof -
  have h1: "fst (fetchTelemetry (ex_api None) (device_id (pill ''pill-1'' None))) =
     [raw 3600000 1010, raw 0 1063]"
    by (simp add: fetchTelemetry_def ex_api_def pill_def ex_tel_def)
  have h2: "[raw 3600000 1010, raw 0 1063] \<noteq> []" by simp
  have g: "map gravityVelocity [raw 3600000 1010, raw 0 1063] = [None, None]"
    by (simp add: raw_def)
  note inst = gravityVelocity_passed_through
    [of "ex_api None" "pill ''pill-1'' None" "\<lparr>manualOriginalGravity = None\<rparr>"
        defaultTempConfig False 0 None "[(raw 3600000 1010)\<lparr>gravityVelocity := Some (- 53)\<rparr>, raw 0 1063]"]
  from inst h1 h2
  obtain ts where ts: "enrichDevice \<lparr>manualOriginalGravity = None\<rparr> (ex_api None) (pill ''pill-1'' None) =
          Inr ((pill ''pill-1'' None)\<lparr>telemetry := Some ts\<rparr>)"
     "map gravityVelocity ts = map gravityVelocity [raw 3600000 1010, raw 0 1063]"
    by blast
  have chart: "gravityVelocity_series
     (createChart defaultTempConfig False 0 None
        [(raw 3600000 1010)\<lparr>gravityVelocity := Some (- 53)\<rparr>, raw 0 1063]) = [0, - 53]"
    using inst by (simp add: raw_def recentData_def)
  from ts g h1 chart show ?thesis by auto
qed

text \<open>
  C8 as stated fails: two points an hour apart, sent without \<open>gravityVelocity\<close>,
  both come back without it, the later one included.
\<close>

theorem gravityVelocity_counterexample:
  "createdOn (raw 0 1063) < createdOn (raw 3600000 1010) \<and>
   (case enrichDevice \<lparr>manualOriginalGravity = None\<rparr> (ex_api (Some 1055)) (ex_devices ! 1) of
      Inl e \<Rightarrow> None
    | Inr d' \<Rightarrow> map_option (map gravityVelocity) (telemetry d')) = Some [None, None]"
proof -
  have h1: "fst (fetchTelemetry (ex_api (Some 1055)) (device_id (ex_devices ! 1))) = ex_tel"
    by (simp add: fetchTelemetry_def ex_api_def ex_devices_def pill_def)
  have h2: "ex_tel \<noteq> []" by (simp add: ex_tel_def)
  have s: "fetchProfileSession (ex_api (Some 1055)) ''s1'' = Some \<lparr>session_id = ''s1'', originalGravity = Some 1055\<rparr>"
    by (simp add: fetchProfileSession_def ex_api_def)
  have h3: "resolve_og \<lparr>manualOriginalGravity = None\<rparr> (ex_api (Some 1055)) (ex_devices ! 1) ex_tel = Inr 1055"
    by (simp add: resolve_og_def og_first_def og_manual_def og_session_def truthy_def ex_devices_def pill_def s)
  have "map gravityVelocity (map (enrich 1055) ex_tel) = [None, None]"
    by (simp add: ex_tel_def enrich_other_fields raw_def)
  then show ?thesis
    using enrichDevice_nonempty [OF h1 h2 h3] by (simp add: raw_def)
qed

subsection \<open>Original gravity\<close>

text \<open>
  C2, as the code has it. First match wins among three steps: the original gravity of the
  profile session, when the device has an active profile session with a non-empty id,
  the session is found and its \<open>originalGravity\<close> is there and not zero; otherwise
  the manual value, when it is configured and not zero; otherwise the gravity of the
  first point in order of \<open>createdOn\<close>. The last conjunct says when the first step
  yields a value.
\<close>

theorem og_priority:
  "(\<forall>r i s v. activeProfileSession d = Some r \<and> ref_id r = Some i \<and> i \<noteq> [] \<and>
       fetchProfileSession a i = Some s \<and> originalGravity s = Some v \<and> v \<noteq> 0 \<longrightarrow>
       resolve_og c a d tel = Inr v) \<and>
   (\<forall>m. og_session a d = None \<and> manualOriginalGravity c = Some m \<and> m \<noteq> 0 \<longrightarrow>
       resolve_og c a d tel = Inr m) \<and>
   (og_session a d = None \<and> \<not> truthy (manualOriginalGravity c) \<longrightarrow>
       resolve_og c a d tel =
         (case sortedByDate tel of [] \<Rightarrow> Inl TypeError | s # _ \<Rightarrow> Inr (gravity s))) \<and>
   (\<forall>v. og_session a d = Some v \<longleftrightarrow>
       (\<exists>r i s. activeProfileSession d = Some r \<and> ref_id r = Some i \<and> i \<noteq> [] \<and>
          fetchProfileSession a i = Some s \<and> originalGravity s = Some v \<and> v \<noteq> 0))"
proof -
  have tier1: "resolve_og c a d tel = Inr v"
    if "activeProfileSession d = Some r \<and> ref_id r = Some i \<and> i \<noteq> [] \<and>
       fetchProfileSession a i = Some s \<and> originalGravity s = Some v \<and> v \<noteq> 0" for r i s v
  proof -
    from that have "og_session a d = Some v" unfolding og_session_Some_iff by blast
    moreover from that have "v \<noteq> 0" by simp
    ultimately show ?thesis
      by (simp add: resolve_og_def og_manual_def og_first_truthy truthy_def)
  qed
  have tier2: "resolve_og c a d tel = Inr m"
    if "og_session a d = None \<and> manualOriginalGravity c = Some m \<and> m \<noteq> 0" for m
    using that by (simp add: resolve_og_def og_manual_def og_first_truthy truthy_def)
  have tier3: "og_session a d = None \<and> \<not> truthy (manualOriginalGravity c) \<longrightarrow>
       resolve_og c a d tel =
         (case sortedByDate tel of [] \<Rightarrow> Inl TypeError | s # _ \<Rightarrow> Inr (gravity s))"
    by (simp add: resolve_og_def og_manual_def og_first_def truthy_def)
  have c1: "\<forall>r i s v. activeProfileSession d = Some r \<and> ref_id r = Some i \<and> i \<noteq> [] \<and>
       fetchProfileSession a i = Some s \<and> originalGravity s = Some v \<and> v \<noteq> 0 \<longrightarrow>
       resolve_og c a d tel = Inr v"
    using tier1 by (intro allI impI)
  have c2: "\<forall>m. og_session a d = None \<and> manualOriginalGravity c = Some m \<and> m \<noteq> 0 \<longrightarrow>
       resolve_og c a d tel = Inr m"
    using tier2 by (intro allI impI)
  have c4: "\<forall>v. og_session a d = Some v \<longleftrightarrow>
       (\<exists>r i s. activeProfileSession d = Some r \<and> ref_id r = Some i \<and> i \<noteq> [] \<and>
          fetchProfileSession a i = Some s \<and> originalGravity s = Some v \<and> v \<noteq> 0)"
    by (intro allI og_session_Some_iff)
  show ?thesis by (intro conjI; (fact c1 | fact c2 | fact tier3 | fact c4))
qed

theorem og_priority_witness:
  "resolve_og \<lparr>manualOriginalGravity = Some 1050\<rparr> (ex_api (Some 1055)) (ex_devices ! 1) ex_tel = Inr 1055 \<and>
   og_session (ex_api (Some 1055)) (ex_devices ! 0) = None \<and>
   resolve_og \<lparr>manualOriginalGravity = Some 1050\<rparr> (ex_api (Some 1055)) (ex_devices ! 0) ex_tel = Inr 1050 \<and>
   resolve_og \<lparr>manualOriginalGravity = None\<rparr> (ex_api (Some 1055)) (ex_devices ! 0) ex_tel = Inr 1063"
proof -
  have d1: "activeProfileSession (ex_devices ! 1) = Some \<lparr>ref_id = Some ''s1''\<rparr>"
    by (simp add: ex_devices_def pill_def)
  have s: "fetchProfileSession (ex_api (Some 1055)) ''s1'' =
     Some \<lparr>session_id = ''s1'', originalGravity = Some 1055\<rparr>"
    by (simp add: fetchProfileSession_def ex_api_def)
  have a: "resolve_og \<lparr>manualOriginalGravity = Some 1050\<rparr> (ex_api (Some 1055)) (ex_devices ! 1) ex_tel = Inr 1055"
    by (rule og_priority [THEN conjunct1, rule_format,
          of _ "\<lparr>ref_id = Some ''s1''\<rparr>" "''s1''" _
             "\<lparr>session_id = ''s1'', originalGravity = Some 1055\<rparr>" 1055])
       (use d1 s in simp)
  have d0: "og_session (ex_api (Some 1055)) (ex_devices ! 0) = None"
    by (simp add: og_session_def ex_devices_def pill_def)
  have b: "resolve_og \<lparr>manualOriginalGravity = Some 1050\<rparr> (ex_api (Some 1055)) (ex_devices ! 0) ex_tel = Inr 1050"
    by (rule og_priority [THEN conjunct2, THEN conjunct1, rule_format]) (simp add: d0)
  have sd: "sortedByDate ex_tel = [raw 0 1063, raw 3600000 1010]"
    by (simp add: sortedByDate_def ex_tel_def raw_def)
  have "resolve_og \<lparr>manualOriginalGravity = None\<rparr> (ex_api (Some 1055)) (ex_devices ! 0) ex_tel =
          (case sortedByDate ex_tel of [] \<Rightarrow> Inl TypeError | s # _ \<Rightarrow> Inr (gravity s))"
    by (rule og_priority [THEN conjunct2, THEN conjunct2, THEN conjunct1, rule_format])
       (simp add: d0 truthy_def)
  then have c: "resolve_og \<lparr>manualOriginalGravity = None\<rparr> (ex_api (Some 1055)) (ex_devices ! 0) ex_tel = Inr 1063"
    by (simp add: sd raw_def)
  show ?thesis using a d0 b c by simp
qed

text \<open>
  C2 as stated fails when the session found exposes \<open>originalGravity = 0\<close>: with a
  manual value of 1050 the result is 1050, not the value of the session.
\<close>

theorem og_priority_counterexample:
  "activeProfileSession (ex_devices ! 1) = Some \<lparr>ref_id = Some ''s1''\<rparr> \<and>
   fetchProfileSession (ex_api (Some 0)) ''s1'' =
     Some \<lparr>session_id = ''s1'', originalGravity = Some 0\<rparr> \<and>
   resolve_og \<lparr>manualOriginalGravity = Some 1050\<rparr> (ex_api (Some 0)) (ex_devices ! 1) ex_tel = Inr 1050 \<and>
   resolve_og \<lparr>manualOriginalGravity = Some 1050\<rparr> (ex_api (Some 0)) (ex_devices ! 1) ex_tel \<noteq> Inr 0"
proof -
  have s: "fetchProfileSession (ex_api (Some 0)) ''s1'' =
     Some \<lparr>session_id = ''s1'', originalGravity = Some 0\<rparr>"
    by (simp add: fetchProfileSession_def ex_api_def)
  have d: "activeProfileSession (ex_devices ! 1) = Some \<lparr>ref_id = Some ''s1''\<rparr>"
    by (simp add: ex_devices_def pill_def)
  have o: "og_session (ex_api (Some 0)) (ex_devices ! 1) = None"
    unfolding og_session_def d by (simp add: s truthy_def)
  have r: "resolve_og \<lparr>manualOriginalGravity = Some 1050\<rparr> (ex_api (Some 0)) (ex_devices ! 1) ex_tel = Inr 1050"
    unfolding resolve_og_def o by (simp add: og_manual_def og_first_def truthy_def)
  show ?thesis using s d r by simp
qed

text \<open>
  C9. A falsy candidate counts as absent. When the \<open>originalGravity\<close> of the session
  found is missing or 0, the first step yields nothing and the result is what the manual
  and the first-point steps give; when the manual value is unset or 0, the second step
  changes nothing and the result is what the session or else the first point gives.
\<close>

theorem falsy_og_skipped:
  "(\<forall>r i s. activeProfileSession d = Some r \<and> ref_id r = Some i \<and>
       fetchProfileSession a i = Some s \<and>
       (originalGravity s = None \<or> originalGravity s = Some 0) \<longrightarrow>
       og_session a d = None \<and> resolve_og c a d tel = og_first tel (og_manual c None)) \<and>
   (manualOriginalGravity c = None \<or> manualOriginalGravity c = Some 0 \<longrightarrow>
       (\<forall>og. og_manual c og = og) \<and> resolve_og c a d tel = og_first tel (og_session a d)) \<and>
   (\<forall>m. og_session a d = None \<and> manualOriginalGravity c = Some m \<and> m \<noteq> 0 \<longrightarrow>
       og_first tel (og_manual c None) = Inr m) \<and>
   (\<forall>s ss. og_session a d = None \<and> sortedByDate tel = s # ss \<longrightarrow>
       og_first tel (og_session a d) = Inr (gravity s))"
proof -
  have t1: "og_session a d = None \<and> resolve_og c a d tel = og_first tel (og_manual c None)"
    if "activeProfileSession d = Some r \<and> ref_id r = Some i \<and>
       fetchProfileSession a i = Some s \<and>
       (originalGravity s = None \<or> originalGravity s = Some 0)" for r i s
  proof -
    from that have "og_session a d = None"
      by (auto simp: og_session_def truthy_def)
    then show ?thesis by (simp add: resolve_og_def)
  qed
  have t2: "manualOriginalGravity c = None \<or> manualOriginalGravity c = Some 0 \<longrightarrow>
       (\<forall>og. og_manual c og = og) \<and> resolve_og c a d tel = og_first tel (og_session a d)"
    by (auto simp: resolve_og_def og_manual_def truthy_def)
  have t3: "\<forall>m. og_session a d = None \<and> manualOriginalGravity c = Some m \<and> m \<noteq> 0 \<longrightarrow>
       og_first tel (og_manual c None) = Inr m"
    by (simp add: og_manual_def og_first_truthy truthy_def)
  have t4: "\<forall>s ss. og_session a d = None \<and> sortedByDate tel = s # ss \<longrightarrow>
       og_first tel (og_session a d) = Inr (gravity s)"
    by (simp add: og_first_def truthy_def)
  have c1: "\<forall>r i s. activeProfileSession d = Some r \<and> ref_id r = Some i \<and>
       fetchProfileSession a i = Some s \<and>
       (originalGravity s = None \<or> originalGravity s = Some 0) \<longrightarrow>
       og_session a d = None \<and> resolve_og c a d tel = og_first tel (og_manual c None)"
    using t1 by (intro allI impI)
  show ?thesis by (intro conjI; (fact c1 | fact t2 | fact t3 | fact t4))
qed

theorem falsy_og_skipped_witness:
  "fetchProfileSession (ex_api (Some 0)) ''s1'' = Some \<lparr>session_id = ''s1'', originalGravity = Some 0\<rparr> \<and>
   resolve_og \<lparr>manualOriginalGravity = Some 1040\<rparr> (ex_api (Some 0)) (ex_devices ! 1) ex_tel = Inr 1040 \<and>
   resolve_og \<lparr>manualOriginalGravity = Some 0\<rparr> (ex_api None) (ex_devices ! 1) ex_tel = Inr 1063"
proof -
  have d1: "activeProfileSession (ex_devices ! 1) = Some \<lparr>ref_id = Some ''s1''\<rparr>"
    by (simp add: ex_devices_def pill_def)
  have s0: "fetchProfileSession (ex_api (Some 0)) ''s1'' =
     Some \<lparr>session_id = ''s1'', originalGravity = Some 0\<rparr>"
    by (simp add: fetchProfileSession_def ex_api_def)
  have sN: "fetchProfileSession (ex_api None) ''s1'' =
     Some \<lparr>session_id = ''s1'', originalGravity = None\<rparr>"
    by (simp add: fetchProfileSession_def ex_api_def)
  have sd: "sortedByDate ex_tel = [raw 0 1063, raw 3600000 1010]"
    by (simp add: sortedByDate_def ex_tel_def raw_def)
  have skip0: "og_session (ex_api (Some 0)) (ex_devices ! 1) = None \<and>
      resolve_og \<lparr>manualOriginalGravity = Some 1040\<rparr> (ex_api (Some 0)) (ex_devices ! 1) ex_tel =
        og_first ex_tel (og_manual \<lparr>manualOriginalGravity = Some 1040\<rparr> None)"
    by (rule falsy_og_skipped [THEN conjunct1, rule_format,
          of _ "\<lparr>ref_id = Some ''s1''\<rparr>" "''s1''" _
             "\<lparr>session_id = ''s1'', originalGravity = Some 0\<rparr>"])
       (use d1 s0 in simp)
  have "og_first ex_tel (og_manual \<lparr>manualOriginalGravity = Some 1040\<rparr> None) = Inr 1040"
    by (rule falsy_og_skipped [THEN conjunct2, THEN conjunct2, THEN conjunct1, rule_format,
          of "ex_api (Some 0)" "ex_devices ! 1"])
       (use skip0 in simp)
  with skip0 have a: "resolve_og \<lparr>manualOriginalGravity = Some 1040\<rparr> (ex_api (Some 0)) (ex_devices ! 1) ex_tel = Inr 1040"
    by simp
  have skipN: "og_session (ex_api None) (ex_devices ! 1) = None \<and>
      resolve_og \<lparr>manualOriginalGravity = Some 0\<rparr> (ex_api None) (ex_devices ! 1) ex_tel =
        og_first ex_tel (og_manual \<lparr>manualOriginalGravity = Some 0\<rparr> None)"
    by (rule falsy_og_skipped [THEN conjunct1, rule_format,
          of _ "\<lparr>ref_id = Some ''s1''\<rparr>" "''s1''" _
             "\<lparr>session_id = ''s1'', originalGravity = None\<rparr>"])
       (use d1 sN in simp)
  have m0: "(\<forall>og. og_manual \<lparr>manualOriginalGravity = Some 0\<rparr> og = og) \<and>
      resolve_og \<lparr>manualOriginalGravity = Some 0\<rparr> (ex_api None) (ex_devices ! 1) ex_tel =
        og_first ex_tel (og_session (ex_api None) (ex_devices ! 1))"
    by (rule falsy_og_skipped [THEN conjunct2, THEN conjunct1, rule_format]) simp
  have "og_first ex_tel (og_session (ex_api None) (ex_devices ! 1)) = Inr (gravity (raw 0 1063))"
    by (rule falsy_og_skipped [THEN conjunct2, THEN conjunct2, THEN conjunct2, rule_format,
          of _ _ _ _ "[raw 3600000 1010]"])
       (use skipN sd in simp)
  with m0 have b: "resolve_og \<lparr>manualOriginalGravity = Some 0\<rparr> (ex_api None) (ex_devices ! 1) ex_tel = Inr 1063"
    by (simp add: raw_def)
  show ?thesis using s0 a b by simp
qed

subsection \<open>The first point in time\<close>

lemma sortedByDate_head_earliest:
  assumes "sortedByDate tel = s # ss"
  shows "earliest tel s"
proof -
  have st: "set (s # ss) = set tel" using assms by (metis sortedByDate_def set_sort)
  have "sorted (map createdOn (s # ss))" using assms by (metis sortedByDate_def sorted_sort_key)
  then have "\<forall>t\<in>set ss. createdOn s \<le> createdOn t" by simp
  then have "\<forall>t\<in>set (s # ss). createdOn s \<le> createdOn t" by simp
  with st show ?thesis unfolding earliest_def by auto
qed

lemma sortedByDate_nonempty: "tel \<noteq> [] \<Longrightarrow> \<exists>s ss. sortedByDate tel = s # ss"
  by (metis sortedByDate_def set_sort set_empty neq_Nil_conv)

lemma find_filter_hd: "filter P xs = y # ys \<Longrightarrow> find P xs = Some y"
  by (induction xs) (auto split: if_splits)

lemma sortedByDate_head_first:
  assumes "sortedByDate tel = s # ss"
  shows "find (earliest tel) tel = Some s"
proof -
  have e: "earliest tel s" using assms by (rule sortedByDate_head_earliest)
  have same: "earliest tel t \<longleftrightarrow> createdOn t = createdOn s" if "t \<in> set tel" for t
    using e that unfolding earliest_def by (auto intro: order_antisym)
  have "filter (earliest tel) tel = filter (\<lambda>t. createdOn t = createdOn s) tel"
    by (rule filter_cong) (auto simp: same)
  also have "\<dots> = filter (\<lambda>t. createdOn t = createdOn s) (sortedByDate tel)"
    unfolding sortedByDate_def by (simp add: sort_key_stable)
  also have "\<dots> = s # filter (\<lambda>t. createdOn t = createdOn s) ss"
    using assms by simp
  finally show ?thesis by (rule find_filter_hd)
qed

lemma earliest_perm: "mset tel' = mset tel \<Longrightarrow> earliest tel' s = earliest tel s"
  unfolding earliest_def by (metis mset_eq_setD)

text \<open>
  C5, as the code has it. When neither the profile session nor the manual value gives an
  original gravity, the result is the gravity of a chronologically earliest point: the
  first such point in input order, since the sort is stable. It is the same for every
  permutation of the telemetry whenever the earliest points agree on their gravity, in
  particular when only one point has the earliest \<open>createdOn\<close>.
\<close>

theorem og_first_point:
  assumes "og_session a d = None" and "\<not> truthy (manualOriginalGravity c)" and "tel \<noteq> []"
  shows "(\<exists>s. earliest tel s \<and> find (earliest tel) tel = Some s \<and>
            resolve_og c a d tel = Inr (gravity s)) \<and>
         (\<forall>tel'. mset tel' = mset tel \<and>
            (\<forall>s t. earliest tel s \<and> earliest tel t \<longrightarrow> gravity s = gravity t) \<longrightarrow>
            resolve_og c a d tel' = resolve_og c a d tel)"
proof -
  have res: "resolve_og c a d xs = (case sortedByDate xs of [] \<Rightarrow> Inl TypeError | s # _ \<Rightarrow> Inr (gravity s))" for xs
    using assms(1,2) by (simp add: resolve_og_def og_manual_def og_first_def truthy_def)
  obtain s ss where s: "sortedByDate tel = s # ss"
    using sortedByDate_nonempty [OF assms(3)] by blast
  have r: "resolve_og c a d tel = Inr (gravity s)" by (simp add: res s)
  have first: "\<exists>s. earliest tel s \<and> find (earliest tel) tel = Some s \<and>
            resolve_og c a d tel = Inr (gravity s)"
    using sortedByDate_head_earliest [OF s] sortedByDate_head_first [OF s] r by blast
  have perm: "resolve_og c a d tel' = resolve_og c a d tel"
    if p: "mset tel' = mset tel"
      and agree: "\<forall>s t. earliest tel s \<and> earliest tel t \<longrightarrow> gravity s = gravity t" for tel'
  proof -
    have "tel' \<noteq> []" using p assms(3) by auto
    then obtain s' ss' where s': "sortedByDate tel' = s' # ss'"
      using sortedByDate_nonempty by blast
    have "earliest tel s'"
      using sortedByDate_head_earliest [OF s'] earliest_perm [OF p] by simp
    with agree sortedByDate_head_earliest [OF s] have "gravity s' = gravity s" by blast
    then show ?thesis by (simp add: res s s')
  qed
  show ?thesis
  proof (intro conjI allI impI)
    show "\<exists>s. earliest tel s \<and> find (earliest tel) tel = Some s \<and>
            resolve_og c a d tel = Inr (gravity s)" by (fact first)
  next
    fix tel'
    assume "mset tel' = mset tel \<and>
            (\<forall>s t. earliest tel s \<and> earliest tel t \<longrightarrow> gravity s = gravity t)"
    then show "resolve_og c a d tel' = resolve_og c a d tel" using perm by blast
  qed
qed

theorem og_first_point_witness:
  "og_session (ex_api None) (pill ''pill-1'' None) = None \<and>
   mset [raw 0 1063, raw 3600000 1010] = mset ex_tel \<and>
   earliest ex_tel (raw 0 1063) \<and>
   resolve_og \<lparr>manualOriginalGravity = None\<rparr> (ex_api None) (pill ''pill-1'' None) ex_tel = Inr 1063 \<and>
   resolve_og \<lparr>manualOriginalGravity = None\<rparr> (ex_api None) (pill ''pill-1'' None)
     [raw 0 1063, raw 3600000 1010] = Inr 1063"
proof -
  have h1: "og_session (ex_api None) (pill ''pill-1'' None) = None"
    by (simp add: og_session_def pill_def)
  have h2: "\<not> truthy (manualOriginalGravity \<lparr>manualOriginalGravity = None\<rparr>)"
    by (simp add: truthy_def)
  have h3: "ex_tel \<noteq> []" by (simp add: ex_tel_def)
  have p: "mset [raw 0 1063, raw 3600000 1010] = mset ex_tel" by (simp add: ex_tel_def)
  have e: "earliest ex_tel t \<longleftrightarrow> t = raw 0 1063" for t
    by (auto simp: earliest_def ex_tel_def raw_def)
  have agree: "\<forall>s t. earliest ex_tel s \<and> earliest ex_tel t \<longrightarrow> gravity s = gravity t"
    by (simp add: e)
  note inst = og_first_point [OF h1 h2 h3]
  from inst obtain s where "earliest ex_tel s"
    "resolve_og \<lparr>manualOriginalGravity = None\<rparr> (ex_api None) (pill ''pill-1'' None) ex_tel = Inr (gravity s)"
    by blast
  then have a: "resolve_og \<lparr>manualOriginalGravity = None\<rparr> (ex_api None) (pill ''pill-1'' None) ex_tel = Inr 1063"
    by (simp add: e raw_def)
  have "resolve_og \<lparr>manualOriginalGravity = None\<rparr> (ex_api None) (pill ''pill-1'' None)
     [raw 0 1063, raw 3600000 1010] =
     resolve_og \<lparr>manualOriginalGravity = None\<rparr> (ex_api None) (pill ''pill-1'' None) ex_tel"
    by (rule inst [THEN conjunct2, rule_format]) (use p agree in simp)
  with a h1 p e show ?thesis by simp
qed

text \<open>
  C5 as stated fails for two points with the same \<open>createdOn\<close> and different
  gravities: the result is the gravity of whichever comes first in the input.
\<close>

theorem og_first_point_counterexample:
  "mset [raw 0 1050, raw 0 1060] = mset [raw 0 1060, raw 0 1050] \<and>
   resolve_og \<lparr>manualOriginalGravity = None\<rparr> (ex_api None) (pill ''pill-1'' None)
     [raw 0 1060, raw 0 1050] = Inr 1060 \<and>
   resolve_og \<lparr>manualOriginalGravity = None\<rparr> (ex_api None) (pill ''pill-1'' None)
     [raw 0 1050, raw 0 1060] = Inr 1050"
proof -
  have h1: "og_session (ex_api None) (pill ''pill-1'' None) = None"
    by (simp add: og_session_def pill_def)
  have a: "resolve_og \<lparr>manualOriginalGravity = None\<rparr> (ex_api None) (pill ''pill-1'' None)
     [raw 0 1060, raw 0 1050] = Inr 1060"
    unfolding resolve_og_def h1
    by (simp add: og_manual_def og_first_def truthy_def sortedByDate_def raw_def)
  have b: "resolve_og \<lparr>manualOriginalGravity = None\<rparr> (ex_api None) (pill ''pill-1'' None)
     [raw 0 1050, raw 0 1060] = Inr 1050"
    unfolding resolve_og_def h1
    by (simp add: og_manual_def og_first_def truthy_def sortedByDate_def raw_def)
  have p: "mset [raw 0 1050, raw 0 1060] = mset [raw 0 1060, raw 0 1050]" by simp
  show ?thesis using a b p by simp
qed

section \<open>Properties of the client\<close>

subsection \<open>Temperature classification\<close>

lemma tempColor_spec: "valid_config cfg \<Longrightarrow> tempColor cfg cc temp = classify_spec temp cfg cc"
  unfolding valid_config_def tempColor_def classify_spec_def Let_def by auto

lemma tempClass_spec:
  "valid_config cfg \<Longrightarrow> tempClass cfg cc (Some l) = Some (classify_spec (temperature l) cfg cc)"
  unfolding valid_config_def tempClass_def classify_spec_def Let_def by auto

text \<open>
  C4. For thresholds with \<open>dangerMin \<le> warningMin \<le> warningMax \<le> dangerMax\<close>, the
  colour of a chart point and the class of the temperature card are the classification
  of the specification, a function of the temperature, the thresholds and the cold-crash
  flag: Good below \<open>dangerMin\<close> in cold-crash mode; otherwise Danger below
  \<open>dangerMin\<close> or above \<open>dangerMax\<close>, Warning in \<open>[dangerMin, warningMin)\<close> and
  \<open>(warningMax, dangerMax]\<close>, Good in \<open>[warningMin, warningMax]\<close>. Cold crash leaves
  the high side as it is. With the thresholds 18, 20, 26, 28: 15 is Danger, 15 in
  cold-crash mode is Good, 23 is Good, 29 in cold-crash mode is Danger.
\<close>

theorem temperature_classification:
  assumes "valid_config cfg"
  shows "tempColor cfg cc temp = classify_spec temp cfg cc \<and>
         tempClass cfg cc (Some l) = Some (classify_spec (temperature l) cfg cc) \<and>
         (cc \<and> temp < tempDangerMin cfg \<longrightarrow> tempColor cfg cc temp = Good) \<and>
         (\<not> (cc \<and> temp < tempDangerMin cfg) \<and> (temp < tempDangerMin cfg \<or> temp > tempDangerMax cfg) \<longrightarrow>
            tempColor cfg cc temp = Danger) \<and>
         ((tempDangerMin cfg \<le> temp \<and> temp < tempWarningMin cfg) \<or>
          (tempWarningMax cfg < temp \<and> temp \<le> tempDangerMax cfg) \<longrightarrow>
            tempColor cfg cc temp = Warning) \<and>
         (tempWarningMin cfg \<le> temp \<and> temp \<le> tempWarningMax cfg \<longrightarrow> tempColor cfg cc temp = Good) \<and>
         (temp > tempDangerMax cfg \<longrightarrow> tempColor cfg True temp = Danger)"
proof -
  have a: "tempColor cfg cc temp = classify_spec temp cfg cc" using assms by (rule tempColor_spec)
  have b: "tempClass cfg cc (Some l) = Some (classify_spec (temperature l) cfg cc)"
    using assms by (rule tempClass_spec)
  have c: "cc \<and> temp < tempDangerMin cfg \<longrightarrow> tempColor cfg cc temp = Good"
    unfolding a by (simp add: classify_spec_def)
  have d: "\<not> (cc \<and> temp < tempDangerMin cfg) \<and> (temp < tempDangerMin cfg \<or> temp > tempDangerMax cfg) \<longrightarrow>
            tempColor cfg cc temp = Danger"
    unfolding a by (auto simp: classify_spec_def)
  have e: "(tempDangerMin cfg \<le> temp \<and> temp < tempWarningMin cfg) \<or>
          (tempWarningMax cfg < temp \<and> temp \<le> tempDangerMax cfg) \<longrightarrow>
            tempColor cfg cc temp = Warning"
    using assms unfolding a valid_config_def classify_spec_def by auto
  have f: "tempWarningMin cfg \<le> temp \<and> temp \<le> tempWarningMax cfg \<longrightarrow> tempColor cfg cc temp = Good"
    using assms unfolding a valid_config_def classify_spec_def by auto
  have g: "temp > tempDangerMax cfg \<longrightarrow> tempColor cfg True temp = Danger"
    using assms unfolding tempColor_def valid_config_def Let_def by auto
  show ?thesis by (intro conjI; (fact a | fact b | fact c | fact d | fact e | fact f | fact g))
qed

theorem temperature_classification_witness:
  "valid_config defaultTempConfig \<and>
   tempColor defaultTempConfig False 15 = Danger \<and>
   tempColor defaultTempConfig True 15 = Good \<and>
   tempColor defaultTempConfig False 23 = Good \<and>
   tempColor defaultTempConfig True 29 = Danger \<and>
   tempColor defaultTempConfig False 19 = Warning \<and>
   tempClass defaultTempConfig False (Some ((raw 0 1010)\<lparr>temperature := 15\<rparr>)) = Some Danger \<and>
   tempClass defaultTempConfig True (Some ((raw 0 1010)\<lparr>temperature := 15\<rparr>)) = Some Good \<and>
   tempClass defaultTempConfig False (Some ((raw 0 1010)\<lparr>temperature := 23\<rparr>)) = Some Good \<and>
   tempClass defaultTempConfig True (Some ((raw 0 1010)\<lparr>temperature := 29\<rparr>)) = Some Danger"
proof -
  have v: "valid_config defaultTempConfig" by (simp add: valid_config_def defaultTempConfig_def)
  have s: "classify_spec 15 defaultTempConfig False = Danger"
     "classify_spec 15 defaultTempConfig True = Good"
     "classify_spec 23 defaultTempConfig False = Good"
     "classify_spec 29 defaultTempConfig True = Danger"
     "classify_spec 19 defaultTempConfig False = Warning"
    by (simp_all add: classify_spec_def defaultTempConfig_def)
  have t: "temperature ((raw 0 1010)\<lparr>temperature := x\<rparr>) = x" for x by simp
  note th = temperature_classification [OF v]
  have c1: "tempColor defaultTempConfig False 15 = Danger" using th [of False 15] s by simp
  have c2: "tempColor defaultTempConfig True 15 = Good" using th [of True 15] s by simp
  have c3: "tempColor defaultTempConfig False 23 = Good" using th [of False 23] s by simp
  have c4: "tempColor defaultTempConfig True 29 = Danger" using th [of True 29] s by simp
  have c5: "tempColor defaultTempConfig False 19 = Warning" using th [of False 19] s by simp
  have k1: "tempClass defaultTempConfig False (Some ((raw 0 1010)\<lparr>temperature := 15\<rparr>)) = Some Danger"
    using th [of False 0 "(raw 0 1010)\<lparr>temperature := 15\<rparr>"] s unfolding t by simp
  have k2: "tempClass defaultTempConfig True (Some ((raw 0 1010)\<lparr>temperature := 15\<rparr>)) = Some Good"
    using th [of True 0 "(raw 0 1010)\<lparr>temperature := 15\<rparr>"] s unfolding t by simp
  have k3: "tempClass defaultTempConfig False (Some ((raw 0 1010)\<lparr>temperature := 23\<rparr>)) = Some Good"
    using th [of False 0 "(raw 0 1010)\<lparr>temperature := 23\<rparr>"] s unfolding t by simp
  have k4: "tempClass defaultTempConfig True (Some ((raw 0 1010)\<lparr>temperature := 29\<rparr>)) = Some Danger"
    using th [of True 0 "(raw 0 1010)\<lparr>temperature := 29\<rparr>"] s unfolding t by simp
  show ?thesis by (intro conjI; (fact v | fact c1 | fact c2 | fact c3 | fact c4 | fact c5 | fact k1 | fact k2 | fact k3 | fact k4))
qed

subsection \<open>The latest reading\<close>

lemma sort_newest_first_idem: "sort_newest_first (sort_newest_first xs) = sort_newest_first xs"
  unfolding sort_newest_first_def by (simp add: sort_key_id_if_sorted)

lemma mset_sort_newest_first: "mset (sort_newest_first xs) = mset xs"
  unfolding sort_newest_first_def by simp

lemma sort_newest_first_descending:
  assumes "i \<le> j" and "j < length (sort_newest_first xs)"
  shows "createdOn (sort_newest_first xs ! j) \<le> createdOn (sort_newest_first xs ! i)"
proof -
  let ?ys = "sort_newest_first xs"
  have "sorted (map (\<lambda>s. - createdOn s) ?ys)"
    unfolding sort_newest_first_def by (rule sorted_sort_key)
  then have "map (\<lambda>s. - createdOn s) ?ys ! i \<le> map (\<lambda>s. - createdOn s) ?ys ! j"
    using assms by (simp add: sorted_iff_nth_mono)
  then show ?thesis using assms by simp
qed

lemma arrays_store_telemetry: "arrays (store_telemetry st d) = arrays st"
  by (simp add: store_telemetry_def split: option.splits prod.splits)

lemma arrays_foldl_store: "arrays (foldl store_telemetry st ds) = arrays st"
  by (induction ds arbitrary: st) (simp_all add: arrays_store_telemetry)

lemma arrays_render_device:
  "arrays (fst (render_device st d)) r =
     (if h_telemetry d = Some r then map_option sort_newest_first (arrays st r) else arrays st r)"
proof (cases "device_array st d")
  case None
  then show ?thesis
    by (auto simp: render_device_def device_array_def split: option.splits)
next
  case (Some p)
  obtain r' xs where p: "p = (r', xs)" by (cases p)
  with Some have d: "h_telemetry d = Some r'" "arrays st r' = Some xs"
    by (auto simp: device_array_def split: option.splits)
  show ?thesis
  proof (cases "xs = []")
    case True
    then show ?thesis using Some p d
      by (auto simp: render_device_def sort_newest_first_def)
  next
    case False
    then show ?thesis using Some p d
      by (auto simp: render_device_def Let_def)
  qed
qed

lemma arrays_render_devices:
  "arrays (fst (render_devices st ds)) r =
     (if \<exists>d\<in>set ds. h_telemetry d = Some r then map_option sort_newest_first (arrays st r)
      else arrays st r)"
proof (induction ds arbitrary: st)
  case Nil
  then show ?case by simp
next
  case (Cons d ds)
  obtain st1 c where one: "render_device st d = (st1, c)" by (cases "render_device st d")
  obtain st2 cs where rest: "render_devices st1 ds = (st2, cs)" by (cases "render_devices st1 ds")
  have a1: "arrays st1 r =
     (if h_telemetry d = Some r then map_option sort_newest_first (arrays st r) else arrays st r)"
    using arrays_render_device [of st d r] one by simp
  have a2: "arrays st2 r =
     (if \<exists>d\<in>set ds. h_telemetry d = Some r then map_option sort_newest_first (arrays st1 r)
      else arrays st1 r)"
    using Cons [of st1] rest by simp
  have idem: "map_option sort_newest_first (map_option sort_newest_first x) =
     map_option sort_newest_first x" for x
    by (cases x) (simp_all add: sort_newest_first_idem)
  have "fst (render_devices st (d # ds)) = st2" using one rest by simp
  then show ?case using a1 a2 idem by auto
qed

lemma latest_render_device:
  assumes "h_telemetry d = Some r" and "map_option sort_newest_first (arrays st r) = Some ys"
  shows "latestData (snd (render_device st d)) = (case ys of [] \<Rightarrow> None | y # _ \<Rightarrow> Some y)"
proof -
  from assms(2) obtain zs where zs: "arrays st r = Some zs" "sort_newest_first zs = ys" by auto
  have da: "device_array st d = Some (r, zs)" using assms(1) zs(1) by (simp add: device_array_def)
  show ?thesis
  proof (cases "zs = []")
    case True
    then have "ys = []" using zs(2) by (simp add: sort_newest_first_def)
    with True da show ?thesis by (simp add: render_device_def)
  next
    case False
    with da zs(2) show ?thesis by (simp add: render_device_def Let_def)
  qed
qed

lemma length_render_devices: "length (snd (render_devices st ds)) = length ds"
proof (induction ds arbitrary: st)
  case Nil
  then show ?case by simp
next
  case (Cons d ds)
  obtain st1 c where one: "render_device st d = (st1, c)" by (cases "render_device st d")
  obtain st2 cs where rest: "render_devices st1 ds = (st2, cs)" by (cases "render_devices st1 ds")
  have "length cs = length ds" using Cons [of st1] rest by simp
  then show ?case using one rest by simp
qed

lemma latest_render_devices:
  assumes "i < length ds" and "h_telemetry (ds ! i) = Some r"
    and "map_option sort_newest_first (arrays st r) = Some ys"
  shows "length (snd (render_devices st ds)) = length ds \<and>
         latestData (snd (render_devices st ds) ! i) = (case ys of [] \<Rightarrow> None | y # _ \<Rightarrow> Some y)"
  using assms
proof (induction ds arbitrary: st i)
  case Nil
  then show ?case by simp
next
  case (Cons d ds)
  obtain st1 c where one: "render_device st d = (st1, c)" by (cases "render_device st d")
  obtain st2 cs where rest: "render_devices st1 ds = (st2, cs)" by (cases "render_devices st1 ds")
  have all: "snd (render_devices st (d # ds)) = c # cs" using one rest by simp
  have len: "length cs = length ds" using length_render_devices [of st1 ds] rest by simp
  show ?case
  proof (cases i)
    case 0
    with Cons.prems have "latestData (snd (render_device st d)) = (case ys of [] \<Rightarrow> None | y # _ \<Rightarrow> Some y)"
      by (intro latest_render_device) simp_all
    with 0 one all len show ?thesis by simp
  next
    case (Suc k)
    have k: "k < length ds" "h_telemetry (ds ! k) = Some r" using Cons.prems Suc by simp_all
    have "arrays st1 r =
       (if h_telemetry d = Some r then map_option sort_newest_first (arrays st r) else arrays st r)"
      using arrays_render_device [of st d r] one by simp
    then have "map_option sort_newest_first (arrays st1 r) = Some ys"
      using Cons.prems(3) by (auto simp: sort_newest_first_idem)
    from Cons.IH [OF k this] rest
    have "latestData (cs ! k) = (case ys of [] \<Rightarrow> None | y # _ \<Rightarrow> Some y)" by simp
    with Suc all len show ?thesis by simp
  qed
qed

text \<open>
  C10. \<open>displayDevices\<close> sorts the telemetry array of every device where it is:
  after the pass the array the device refers to holds the same points, newest first
  (points of equal \<open>createdOn\<close> in their former order), and the latest reading shown
  is its first element. Arrays no displayed device refers to are untouched.
\<close>

theorem telemetry_sorted_in_place:
  assumes "i < length hydrometers" and "h_telemetry (hydrometers ! i) = Some r"
    and "arrays st r = Some xs"
  shows "\<exists>ys. arrays (fst (displayDevices st hydrometers)) r = Some ys \<and>
           ys = sort_newest_first xs \<and> mset ys = mset xs \<and>
           (\<forall>j k. j \<le> k \<and> k < length ys \<longrightarrow> createdOn (ys ! k) \<le> createdOn (ys ! j)) \<and>
           latestData (snd (displayDevices st hydrometers) ! i) =
             (case ys of [] \<Rightarrow> None | y # _ \<Rightarrow> Some y) \<and>
           (\<forall>r'. (\<forall>d\<in>set hydrometers. h_telemetry d \<noteq> Some r') \<longrightarrow>
              arrays (fst (displayDevices st hydrometers)) r' = arrays st r')"
proof -
  let ?st0 = "foldl store_telemetry st hydrometers"
  have ne: "length hydrometers \<noteq> 0" using assms(1) by auto
  have dd: "displayDevices st hydrometers = render_devices ?st0 hydrometers"
    using ne by (simp add: displayDevices_def)
  have mem: "\<exists>d\<in>set hydrometers. h_telemetry d = Some r"
    using assms(1,2) nth_mem by blast
  have st0: "arrays ?st0 = arrays st" by (rule arrays_foldl_store)
  have a: "arrays (fst (displayDevices st hydrometers)) r = Some (sort_newest_first xs)"
    using mem assms(3) by (simp add: dd arrays_render_devices st0)
  have b: "\<forall>j k. j \<le> k \<and> k < length (sort_newest_first xs) \<longrightarrow>
      createdOn (sort_newest_first xs ! k) \<le> createdOn (sort_newest_first xs ! j)"
    using sort_newest_first_descending by blast
  have c: "latestData (snd (displayDevices st hydrometers) ! i) =
             (case sort_newest_first xs of [] \<Rightarrow> None | y # _ \<Rightarrow> Some y)"
    unfolding dd
    by (rule latest_render_devices [THEN conjunct2, OF assms(1,2)]) (simp add: st0 assms(3))
  have d: "\<forall>r'. (\<forall>d\<in>set hydrometers. h_telemetry d \<noteq> Some r') \<longrightarrow>
              arrays (fst (displayDevices st hydrometers)) r' = arrays st r'"
    by (simp add: dd arrays_render_devices st0)
  show ?thesis using a b c d mset_sort_newest_first [of xs] by (intro exI [of _ "sort_newest_first xs"]) simp
qed

theorem telemetry_sorted_in_place_witness:
  "arrays ex_client 0 = Some [raw 0 1063, raw 7200000 1005, raw 3600000 1010] \<and>
   arrays (fst (displayDevices ex_client [\<lparr>h_id = ''pill-1'', h_telemetry = Some 0\<rparr>])) 0 =
     Some [raw 7200000 1005, raw 3600000 1010, raw 0 1063] \<and>
   latestData (snd (displayDevices ex_client [\<lparr>h_id = ''pill-1'', h_telemetry = Some 0\<rparr>]) ! 0) =
     Some (raw 7200000 1005)"
proof -
  have h1: "0 < length [\<lparr>h_id = ''pill-1'', h_telemetry = Some 0\<rparr>]" by simp
  have h2: "h_telemetry ([\<lparr>h_id = ''pill-1'', h_telemetry = Some 0\<rparr>] ! 0) = Some 0" by simp
  have h3: "arrays ex_client 0 = Some [raw 0 1063, raw 7200000 1005, raw 3600000 1010]"
    by (simp add: ex_client_def)
  have s: "sort_newest_first [raw 0 1063, raw 7200000 1005, raw 3600000 1010] =
     [raw 7200000 1005, raw 3600000 1010, raw 0 1063]"
    by (simp add: sort_newest_first_def raw_def)
  from telemetry_sorted_in_place [OF h1 h2 h3] obtain ys where ys:
    "arrays (fst (displayDevices ex_client [\<lparr>h_id = ''pill-1'', h_telemetry = Some 0\<rparr>])) 0 = Some ys"
    "ys = sort_newest_first [raw 0 1063, raw 7200000 1005, raw 3600000 1010]"
    "latestData (snd (displayDevices ex_client [\<lparr>h_id = ''pill-1'', h_telemetry = Some 0\<rparr>]) ! 0) =
             (case ys of [] \<Rightarrow> None | y # _ \<Rightarrow> Some y)"
    by blast
  have l: "latestData (snd (displayDevices ex_client [\<lparr>h_id = ''pill-1'', h_telemetry = Some 0\<rparr>]) ! 0) =
     Some (raw 7200000 1005)"
    using ys(3) unfolding ys(2) s by simp
  show ?thesis using ys(1) h3 l unfolding ys(2) s by simp
qed

end
